theory Spec2Isabelle
  imports Complex_Main "HOL-Library.Sublist"
begin

chapter \<open>The model\<close>

section \<open>Python values\<close>

text \<open>
  The sentencing calculators are Python classes of static methods.  Their values are
  modelled as follows.

  \<^item> A Python \<open>str\<close> is a sequence of Unicode code points: \<open>pystr\<close> is a list of
    code points (natural numbers, written in hexadecimal).  \<open>a == b\<close> is list equality
    and \<open>a in b\<close> is \<open>sublist a b\<close> (contiguous containment).
  \<^item> A Python \<open>int\<close> is an \<open>int\<close>.
  \<^item> A Python \<open>float\<close> is modelled by the real number it stands for, and \<open>*\<close>,
    \<open>+\<close>, \<open>-\<close> and \<open>/\<close> by the exact operations on \<open>real\<close>: the rounding error
    of binary floating point is not modelled.  Comparisons of a float with an int are
    exact in Python as they are here.
  \<^item> An optional argument (\<open>= None\<close>) is an \<open>option\<close>.
  \<^item> A raised exception is the \<open>Inl\<close> of a sum type.
  \<^item> \<open>print\<close> calls are left out: they write to the console and return nothing.
\<close>

type_synonym pystr = "nat list"

datatype py_error = KeyError

text \<open>\<open>int(x)\<close> of a float truncates towards zero.\<close>

definition py_int :: "real \<Rightarrow> int" where
  "py_int x = (if 0 \<le> x then \<lfloor>x\<rfloor> else \<lceil>x\<rceil>)"

text \<open>\<open>round(x)\<close> rounds to the nearest integer, a tie going to the even neighbour.\<close>

definition py_round :: "real \<Rightarrow> int" where
  "py_round x =
     (let f = \<lfloor>x\<rfloor>; d = x - of_int f
      in if d < 1 / 2 then f
         else if 1 / 2 < d then f + 1
         else if even f then f else f + 1)"


section \<open>String constants\<close>

text \<open>
  The string literals of the source, as code points.  Crime types: theft
  (\<open>dao qie zui\<close>), fraud (\<open>zha pian zui\<close>), intentional injury
  (\<open>gu yi shang hai zui\<close>) and embezzlement (\<open>zhi wu qin zhan zui\<close>); the first
  three also without the final character \<open>zui\<close> (crime), as the substring tests of
  \<open>1111/sentencing_calculator.py\<close> have them.
\<close>

abbreviation s_theft_crime :: pystr where
  "s_theft_crime \<equiv> [0x76D7, 0x7A83, 0x7F6A]"

abbreviation s_fraud_crime :: pystr where
  "s_fraud_crime \<equiv> [0x8BC8, 0x9A97, 0x7F6A]"

abbreviation s_injury_crime :: pystr where
  "s_injury_crime \<equiv> [0x6545, 0x610F, 0x4F24, 0x5BB3, 0x7F6A]"

abbreviation s_embezzlement_crime :: pystr where
  "s_embezzlement_crime \<equiv> [0x804C, 0x52A1, 0x4FB5, 0x5360, 0x7F6A]"

abbreviation s_theft :: pystr where
  "s_theft \<equiv> [0x76D7, 0x7A83]"

abbreviation s_fraud :: pystr where
  "s_fraud \<equiv> [0x8BC8, 0x9A97]"

abbreviation s_injury :: pystr where
  "s_injury \<equiv> [0x6545, 0x610F, 0x4F24, 0x5BB3]"

text \<open>
  Injury levels: slight injury (\<open>qing wei shang\<close>), minor injury (\<open>qing shang\<close>),
  serious injury (\<open>zhong shang\<close>), death caused (\<open>zhi ren si wang\<close>), death
  (\<open>si wang\<close>), and the graded levels minor injury grade one and two, serious injury
  grade one and two.
\<close>

abbreviation s_slight_injury :: pystr where
  "s_slight_injury \<equiv> [0x8F7B, 0x5FAE, 0x4F24]"

abbreviation s_minor_injury :: pystr where
  "s_minor_injury \<equiv> [0x8F7B, 0x4F24]"

abbreviation s_serious_injury :: pystr where
  "s_serious_injury \<equiv> [0x91CD, 0x4F24]"

abbreviation s_death_caused :: pystr where
  "s_death_caused \<equiv> [0x81F4, 0x4EBA, 0x6B7B, 0x4EA1]"

abbreviation s_death :: pystr where
  "s_death \<equiv> [0x6B7B, 0x4EA1]"

abbreviation s_minor_injury_1 :: pystr where
  "s_minor_injury_1 \<equiv> [0x8F7B, 0x4F24, 0x4E00, 0x7EA7]"

abbreviation s_minor_injury_2 :: pystr where
  "s_minor_injury_2 \<equiv> [0x8F7B, 0x4F24, 0x4E8C, 0x7EA7]"

abbreviation s_serious_injury_1 :: pystr where
  "s_serious_injury_1 \<equiv> [0x91CD, 0x4F24, 0x4E00, 0x7EA7]"

abbreviation s_serious_injury_2 :: pystr where
  "s_serious_injury_2 \<equiv> [0x91CD, 0x4F24, 0x4E8C, 0x7EA7]"

text \<open>
  Amount levels: large (\<open>jiao da\<close>), huge (\<open>ju da\<close>), especially huge
  (\<open>te bie ju da\<close>) and small (\<open>jiao xiao\<close>).
\<close>

abbreviation s_level_large :: pystr where
  "s_level_large \<equiv> [0x8F83, 0x5927]"

abbreviation s_level_huge :: pystr where
  "s_level_huge \<equiv> [0x5DE8, 0x5927]"

abbreviation s_level_especially_huge :: pystr where
  "s_level_especially_huge \<equiv> [0x7279, 0x522B, 0x5DE8, 0x5927]"

abbreviation s_level_small :: pystr where
  "s_level_small \<equiv> [0x8F83, 0x5C0F]"

text \<open>The table keys \<open>"default"\<close> and \<open>"cities_to_provinces"\<close>.\<close>

abbreviation s_default :: pystr where
  "s_default \<equiv> [0x64, 0x65, 0x66, 0x61, 0x75, 0x6C, 0x74]"

abbreviation s_cities_to_provinces :: pystr where
  "s_cities_to_provinces \<equiv>
     [0x63, 0x69, 0x74, 0x69, 0x65, 0x73, 0x5F, 0x74, 0x6F, 0x5F,
      0x70, 0x72, 0x6F, 0x76, 0x69, 0x6E, 0x63, 0x65, 0x73]"

section \<open>Base sentence, fixed brackets (1111/cal.py)\<close>

text \<open>
  \<open>calculate_base_sentence(crime_type, amount=None, injury_level=None)\<close> of
  \<open>1111/cal.py\<close>.  Every test on the amount has the form
  \<open>amount and amount < t\<close>: it is false when \<open>amount\<close> is \<open>None\<close> and when it is
  zero (both are falsy), and is \<open>amount < t\<close> otherwise.
\<close>

definition amount_and_below :: "real option \<Rightarrow> real \<Rightarrow> bool" where
  "amount_and_below amount t =
     (case amount of None \<Rightarrow> False | Some a \<Rightarrow> a \<noteq> 0 \<and> a < t)"

definition calculate_base_sentence_cal1111 ::
  "pystr \<Rightarrow> real option \<Rightarrow> pystr option \<Rightarrow> int" where
  "calculate_base_sentence_cal1111 crime_type amount injury_level =
     (if crime_type = s_theft_crime then
        (if amount_and_below amount 3000 then 6
         else if amount_and_below amount 30000 then 12
         else if amount_and_below amount 300000 then 48
         else 120)
      else if crime_type = s_fraud_crime then
        (if amount_and_below amount 3000 then 0
         else if amount_and_below amount 30000 then 12
         else if amount_and_below amount 500000 then 48
         else 120)
      else if crime_type = s_injury_crime then
        (if injury_level = Some s_slight_injury then 0
         else if injury_level = Some s_minor_injury then 12
         else if injury_level = Some s_serious_injury then 48
         else if injury_level = Some s_death_caused then 120
         else 12)
      else 12)"

section \<open>Jurisdiction tables\<close>

text \<open>
  \<open>REGIONAL_STANDARDS\<close> is one dictionary.  Its keys are jurisdiction names, each
  with a dictionary of the two amount standards \<open>"theft"\<close> and \<open>"fraud"\<close>, and the
  key \<open>"cities_to_provinces"\<close>, whose value is the dictionary from city names to
  province names.  A dictionary is an association list in the order of the source (the
  order in which Python iterates it); no key is written twice.
\<close>

record amount_standard =
  large :: int
  huge :: int
  especially_huge :: int

datatype standards_entry =
    Standards amount_standard amount_standard
  | Cities "(pystr \<times> pystr) list"

text \<open>
  The city table, the same in \<open>1111/sentencing_calculator.py\<close> and \<open>1124/cal.py\<close>.
\<close>

definition cities_to_provinces :: "(pystr \<times> pystr) list" where
  "cities_to_provinces = [
     ([0x6C5F, 0x95E8], [0x5E7F, 0x4E1C]),  \<comment> \<open>Jiangmen: Guangdong\<close>
     ([0x6DF1, 0x5733], [0x5E7F, 0x4E1C]),  \<comment> \<open>Shenzhen: Guangdong\<close>
     ([0x5E7F, 0x5DDE], [0x5E7F, 0x4E1C]),  \<comment> \<open>Guangzhou: Guangdong\<close>
     ([0x73E0, 0x6D77], [0x5E7F, 0x4E1C]),  \<comment> \<open>Zhuhai: Guangdong\<close>
     ([0x4F5B, 0x5C71], [0x5E7F, 0x4E1C]),  \<comment> \<open>Foshan: Guangdong\<close>
     ([0x4E1C, 0x839E], [0x5E7F, 0x4E1C]),  \<comment> \<open>Dongguan: Guangdong\<close>
     ([0x4E2D, 0x5C71], [0x5E7F, 0x4E1C]),  \<comment> \<open>Zhongshan: Guangdong\<close>
     ([0x676D, 0x5DDE], [0x6D59, 0x6C5F]),  \<comment> \<open>Hangzhou: Zhejiang\<close>
     ([0x5B81, 0x6CE2], [0x6D59, 0x6C5F]),  \<comment> \<open>Ningbo: Zhejiang\<close>
     ([0x6E29, 0x5DDE], [0x6D59, 0x6C5F]),  \<comment> \<open>Wenzhou: Zhejiang\<close>
     ([0x5609, 0x5174], [0x6D59, 0x6C5F]),  \<comment> \<open>Jiaxing: Zhejiang\<close>
     ([0x7ECD, 0x5174], [0x6D59, 0x6C5F]),  \<comment> \<open>Shaoxing: Zhejiang\<close>
     ([0x53F0, 0x5DDE], [0x6D59, 0x6C5F]),  \<comment> \<open>Taizhou: Zhejiang\<close>
     ([0x4E49, 0x4E4C], [0x6D59, 0x6C5F]),  \<comment> \<open>Yiwu: Zhejiang\<close>
     ([0x5357, 0x4EAC], [0x6C5F, 0x82CF]),  \<comment> \<open>Nanjing: Jiangsu\<close>
     ([0x82CF, 0x5DDE], [0x6C5F, 0x82CF]),  \<comment> \<open>Suzhou: Jiangsu\<close>
     ([0x65E0, 0x9521], [0x6C5F, 0x82CF]),  \<comment> \<open>Wuxi: Jiangsu\<close>
     ([0x5E38, 0x5DDE], [0x6C5F, 0x82CF]),  \<comment> \<open>Changzhou: Jiangsu\<close>
     ([0x5F90, 0x5DDE], [0x6C5F, 0x82CF]),  \<comment> \<open>Xuzhou: Jiangsu\<close>
     ([0x6D4E, 0x5357], [0x5C71, 0x4E1C]),  \<comment> \<open>Jinan: Shandong\<close>
     ([0x9752, 0x5C9B], [0x5C71, 0x4E1C]),  \<comment> \<open>Qingdao: Shandong\<close>
     ([0x70DF, 0x53F0], [0x5C71, 0x4E1C]),  \<comment> \<open>Yantai: Shandong\<close>
     ([0x6F4D, 0x574A], [0x5C71, 0x4E1C]),  \<comment> \<open>Weifang: Shandong\<close>
     ([0x5927, 0x8FDE], [0x8FBD, 0x5B81]),  \<comment> \<open>Dalian: Liaoning\<close>
     ([0x6C88, 0x9633], [0x8FBD, 0x5B81]),  \<comment> \<open>Shenyang: Liaoning\<close>
     ([0x54C8, 0x5C14, 0x6EE8], [0x9ED1, 0x9F99, 0x6C5F]),  \<comment> \<open>Harbin: Heilongjiang\<close>
     ([0x957F, 0x6625], [0x5409, 0x6797]),  \<comment> \<open>Changchun: Jilin\<close>
     ([0x6210, 0x90FD], [0x56DB, 0x5DDD]),  \<comment> \<open>Chengdu: Sichuan\<close>
     ([0x897F, 0x5B89], [0x9655, 0x897F]),  \<comment> \<open>Xian: Shaanxi\<close>
     ([0x6B66, 0x6C49], [0x6E56, 0x5317]),  \<comment> \<open>Wuhan: Hubei\<close>
     ([0x957F, 0x6C99], [0x6E56, 0x5357]),  \<comment> \<open>Changsha: Hunan\<close>
     ([0x798F, 0x5DDE], [0x798F, 0x5EFA]),  \<comment> \<open>Fuzhou: Fujian\<close>
     ([0x53A6, 0x95E8], [0x798F, 0x5EFA]),  \<comment> \<open>Xiamen: Fujian\<close>
     ([0x8D35, 0x9633], [0x8D35, 0x5DDE]),  \<comment> \<open>Guiyang: Guizhou\<close>
     ([0x6606, 0x660E], [0x4E91, 0x5357]),  \<comment> \<open>Kunming: Yunnan\<close>
     ([0x5357, 0x5B81], [0x5E7F, 0x897F]),  \<comment> \<open>Nanning: Guangxi\<close>
     ([0x77F3, 0x5BB6, 0x5E84], [0x6CB3, 0x5317]),  \<comment> \<open>Shijiazhuang: Hebei\<close>
     ([0x592A, 0x539F], [0x5C71, 0x897F]),  \<comment> \<open>Taiyuan: Shanxi\<close>
     ([0x5357, 0x660C], [0x6C5F, 0x897F]),  \<comment> \<open>Nanchang: Jiangxi\<close>
     ([0x5408, 0x80A5], [0x5B89, 0x5FBD]),  \<comment> \<open>Hefei: Anhui\<close>
     ([0x90D1, 0x5DDE], [0x6CB3, 0x5357]),  \<comment> \<open>Zhengzhou: Henan\<close>
     ([0x6D77, 0x53E3], [0x6D77, 0x5357]),  \<comment> \<open>Haikou: Hainan\<close>
     ([0x4E4C, 0x9C81, 0x6728, 0x9F50], [0x65B0, 0x7586]),  \<comment> \<open>Urumqi: Xinjiang\<close>
     ([0x547C, 0x548C, 0x6D69, 0x7279], [0x5185, 0x8499, 0x53E4]),  \<comment> \<open>Hohhot: Neimenggu\<close>
     ([0x94F6, 0x5DDD], [0x5B81, 0x590F]),  \<comment> \<open>Yinchuan: Ningxia\<close>
     ([0x897F, 0x5B81], [0x9752, 0x6D77]),  \<comment> \<open>Xining: Qinghai\<close>
     ([0x62C9, 0x8428], [0x897F, 0x85CF]),  \<comment> \<open>Lhasa: Xizang\<close>
     ([0x5170, 0x5DDE], [0x7518, 0x8083])  \<comment> \<open>Lanzhou: Gansu\<close>
   ]"

text \<open>The table of \<open>1111/sentencing_calculator.py\<close>.\<close>

definition REGIONAL_STANDARDS_sc1111 :: "(pystr \<times> standards_entry) list" where
  "REGIONAL_STANDARDS_sc1111 = [
     (s_default,  \<comment> \<open>default\<close>
      Standards \<lparr>large = 1000, huge = 30000, especially_huge = 300000\<rparr>
                \<lparr>large = 3000, huge = 30000, especially_huge = 500000\<rparr>),
     ([0x5317, 0x4EAC],  \<comment> \<open>Beijing\<close>
      Standards \<lparr>large = 2000, huge = 60000, especially_huge = 400000\<rparr>
                \<lparr>large = 5000, huge = 100000, especially_huge = 500000\<rparr>),
     ([0x4E0A, 0x6D77],  \<comment> \<open>Shanghai\<close>
      Standards \<lparr>large = 6000, huge = 100000, especially_huge = 500000\<rparr>
                \<lparr>large = 6000, huge = 100000, especially_huge = 500000\<rparr>),
     ([0x5E7F, 0x4E1C],  \<comment> \<open>Guangdong\<close>
      Standards \<lparr>large = 3000, huge = 100000, especially_huge = 500000\<rparr>
                \<lparr>large = 6000, huge = 100000, especially_huge = 500000\<rparr>),
     ([0x60E0, 0x5DDE],  \<comment> \<open>Huizhou\<close>
      Standards \<lparr>large = 2000, huge = 60000, especially_huge = 400000\<rparr>
                \<lparr>large = 4000, huge = 60000, especially_huge = 500000\<rparr>),
     ([0x6C5F, 0x95E8],  \<comment> \<open>Jiangmen\<close>
      Standards \<lparr>large = 2000, huge = 60000, especially_huge = 400000\<rparr>
                \<lparr>large = 4000, huge = 60000, especially_huge = 500000\<rparr>),
     ([0x6C55, 0x5934],  \<comment> \<open>Shantou\<close>
      Standards \<lparr>large = 2000, huge = 60000, especially_huge = 400000\<rparr>
                \<lparr>large = 4000, huge = 60000, especially_huge = 500000\<rparr>),
     ([0x6C5F, 0x82CF],  \<comment> \<open>Jiangsu\<close>
      Standards \<lparr>large = 2000, huge = 50000, especially_huge = 400000\<rparr>
                \<lparr>large = 6000, huge = 100000, especially_huge = 500000\<rparr>),
     ([0x6D59, 0x6C5F],  \<comment> \<open>Zhejiang\<close>
      Standards \<lparr>large = 3000, huge = 80000, especially_huge = 400000\<rparr>
                \<lparr>large = 6000, huge = 100000, especially_huge = 500000\<rparr>),
     ([0x5C71, 0x4E1C],  \<comment> \<open>Shandong\<close>
      Standards \<lparr>large = 2000, huge = 60000, especially_huge = 400000\<rparr>
                \<lparr>large = 6000, huge = 80000, especially_huge = 500000\<rparr>),
     ([0x5929, 0x6D25],  \<comment> \<open>Tianjin\<close>
      Standards \<lparr>large = 1000, huge = 30000, especially_huge = 300000\<rparr>
                \<lparr>large = 5000, huge = 50000, especially_huge = 500000\<rparr>),
     ([0x91CD, 0x5E86],  \<comment> \<open>Chongqing\<close>
      Standards \<lparr>large = 2000, huge = 60000, especially_huge = 400000\<rparr>
                \<lparr>large = 5000, huge = 70000, especially_huge = 500000\<rparr>),
     ([0x8D35, 0x5DDE],  \<comment> \<open>Guizhou\<close>
      Standards \<lparr>large = 1000, huge = 30000, especially_huge = 300000\<rparr>
                \<lparr>large = 3000, huge = 50000, especially_huge = 500000\<rparr>),
     ([0x6CB3, 0x5357],  \<comment> \<open>Henan\<close>
      Standards \<lparr>large = 2000, huge = 50000, especially_huge = 400000\<rparr>
                \<lparr>large = 5000, huge = 50000, especially_huge = 500000\<rparr>),
     ([0x6CB3, 0x5317],  \<comment> \<open>Hebei\<close>
      Standards \<lparr>large = 2000, huge = 60000, especially_huge = 400000\<rparr>
                \<lparr>large = 5000, huge = 60000, especially_huge = 500000\<rparr>),
     ([0x8FBD, 0x5B81],  \<comment> \<open>Liaoning\<close>
      Standards \<lparr>large = 2000, huge = 70000, especially_huge = 400000\<rparr>
                \<lparr>large = 6000, huge = 60000, especially_huge = 500000\<rparr>),
     ([0x56DB, 0x5DDD],  \<comment> \<open>Sichuan\<close>
      Standards \<lparr>large = 1600, huge = 50000, especially_huge = 300000\<rparr>
                \<lparr>large = 5000, huge = 50000, especially_huge = 500000\<rparr>),
     ([0x5B89, 0x5FBD],  \<comment> \<open>Anhui\<close>
      Standards \<lparr>large = 2000, huge = 50000, especially_huge = 400000\<rparr>
                \<lparr>large = 5000, huge = 50000, especially_huge = 500000\<rparr>),
     ([0x9655, 0x897F],  \<comment> \<open>Shaanxi\<close>
      Standards \<lparr>large = 1000, huge = 30000, especially_huge = 300000\<rparr>
                \<lparr>large = 5000, huge = 50000, especially_huge = 500000\<rparr>),
     ([0x5C71, 0x897F],  \<comment> \<open>Shanxi\<close>
      Standards \<lparr>large = 1000, huge = 30000, especially_huge = 300000\<rparr>
                \<lparr>large = 5000, huge = 80000, especially_huge = 500000\<rparr>),
     ([0x6E56, 0x5357],  \<comment> \<open>Hunan\<close>
      Standards \<lparr>large = 2000, huge = 50000, especially_huge = 400000\<rparr>
                \<lparr>large = 5000, huge = 50000, especially_huge = 500000\<rparr>),
     ([0x6E56, 0x5317],  \<comment> \<open>Hubei\<close>
      Standards \<lparr>large = 2000, huge = 50000, especially_huge = 500000\<rparr>
                \<lparr>large = 5000, huge = 50000, especially_huge = 500000\<rparr>),
     ([0x798F, 0x5EFA],  \<comment> \<open>Fujian\<close>
      Standards \<lparr>large = 3000, huge = 60000, especially_huge = 300000\<rparr>
                \<lparr>large = 5000, huge = 100000, especially_huge = 500000\<rparr>),
     ([0x4E91, 0x5357],  \<comment> \<open>Yunnan\<close>
      Standards \<lparr>large = 1500, huge = 40000, especially_huge = 350000\<rparr>
                \<lparr>large = 5000, huge = 50000, especially_huge = 500000\<rparr>),
     ([0x5E7F, 0x897F],  \<comment> \<open>Guangxi\<close>
      Standards \<lparr>large = 1500, huge = 40000, especially_huge = 400000\<rparr>
                \<lparr>large = 5000, huge = 50000, especially_huge = 500000\<rparr>),
     ([0x6C5F, 0x897F],  \<comment> \<open>Jiangxi\<close>
      Standards \<lparr>large = 1500, huge = 50000, especially_huge = 400000\<rparr>
                \<lparr>large = 5000, huge = 50000, especially_huge = 500000\<rparr>),
     ([0x5409, 0x6797],  \<comment> \<open>Jilin\<close>
      Standards \<lparr>large = 2000, huge = 30000, especially_huge = 300000\<rparr>
                \<lparr>large = 5000, huge = 50000, especially_huge = 500000\<rparr>),
     ([0x9ED1, 0x9F99, 0x6C5F],  \<comment> \<open>Heilongjiang\<close>
      Standards \<lparr>large = 1500, huge = 50000, especially_huge = 350000\<rparr>
                \<lparr>large = 5000, huge = 50000, especially_huge = 500000\<rparr>),
     (s_cities_to_provinces, Cities cities_to_provinces)
   ]"

text \<open>The table of \<open>1124/cal.py\<close>, with seven more provinces.\<close>

definition REGIONAL_STANDARDS_cal1124 :: "(pystr \<times> standards_entry) list" where
  "REGIONAL_STANDARDS_cal1124 = [
     (s_default,  \<comment> \<open>default\<close>
      Standards \<lparr>large = 1000, huge = 30000, especially_huge = 300000\<rparr>
                \<lparr>large = 3000, huge = 30000, especially_huge = 500000\<rparr>),
     ([0x5317, 0x4EAC],  \<comment> \<open>Beijing\<close>
      Standards \<lparr>large = 2000, huge = 60000, especially_huge = 400000\<rparr>
                \<lparr>large = 5000, huge = 100000, especially_huge = 500000\<rparr>),
     ([0x4E0A, 0x6D77],  \<comment> \<open>Shanghai\<close>
      Standards \<lparr>large = 6000, huge = 100000, especially_huge = 500000\<rparr>
                \<lparr>large = 6000, huge = 100000, especially_huge = 500000\<rparr>),
     ([0x5E7F, 0x4E1C],  \<comment> \<open>Guangdong\<close>
      Standards \<lparr>large = 3000, huge = 100000, especially_huge = 500000\<rparr>
                \<lparr>large = 6000, huge = 100000, especially_huge = 500000\<rparr>),
     ([0x60E0, 0x5DDE],  \<comment> \<open>Huizhou\<close>
      Standards \<lparr>large = 2000, huge = 60000, especially_huge = 400000\<rparr>
                \<lparr>large = 4000, huge = 60000, especially_huge = 500000\<rparr>),
     ([0x6C5F, 0x95E8],  \<comment> \<open>Jiangmen\<close>
      Standards \<lparr>large = 2000, huge = 60000, especially_huge = 400000\<rparr>
                \<lparr>large = 4000, huge = 60000, especially_huge = 500000\<rparr>),
     ([0x6C55, 0x5934],  \<comment> \<open>Shantou\<close>
      Standards \<lparr>large = 2000, huge = 60000, especially_huge = 400000\<rparr>
                \<lparr>large = 4000, huge = 60000, especially_huge = 500000\<rparr>),
     ([0x6C5F, 0x82CF],  \<comment> \<open>Jiangsu\<close>
      Standards \<lparr>large = 2000, huge = 50000, especially_huge = 400000\<rparr>
                \<lparr>large = 6000, huge = 100000, especially_huge = 500000\<rparr>),
     ([0x6D59, 0x6C5F],  \<comment> \<open>Zhejiang\<close>
      Standards \<lparr>large = 3000, huge = 80000, especially_huge = 400000\<rparr>
                \<lparr>large = 6000, huge = 100000, especially_huge = 500000\<rparr>),
     ([0x5C71, 0x4E1C],  \<comment> \<open>Shandong\<close>
      Standards \<lparr>large = 2000, huge = 60000, especially_huge = 400000\<rparr>
                \<lparr>large = 6000, huge = 80000, especially_huge = 500000\<rparr>),
     ([0x5929, 0x6D25],  \<comment> \<open>Tianjin\<close>
      Standards \<lparr>large = 1000, huge = 30000, especially_huge = 300000\<rparr>
                \<lparr>large = 5000, huge = 50000, especially_huge = 500000\<rparr>),
     ([0x91CD, 0x5E86],  \<comment> \<open>Chongqing\<close>
      Standards \<lparr>large = 2000, huge = 60000, especially_huge = 400000\<rparr>
                \<lparr>large = 5000, huge = 70000, especially_huge = 500000\<rparr>),
     ([0x8D35, 0x5DDE],  \<comment> \<open>Guizhou\<close>
      Standards \<lparr>large = 1000, huge = 30000, especially_huge = 300000\<rparr>
                \<lparr>large = 3000, huge = 50000, especially_huge = 500000\<rparr>),
     ([0x6CB3, 0x5357],  \<comment> \<open>Henan\<close>
      Standards \<lparr>large = 2000, huge = 50000, especially_huge = 400000\<rparr>
                \<lparr>large = 5000, huge = 50000, especially_huge = 500000\<rparr>),
     ([0x6CB3, 0x5317],  \<comment> \<open>Hebei\<close>
      Standards \<lparr>large = 2000, huge = 60000, especially_huge = 400000\<rparr>
                \<lparr>large = 5000, huge = 60000, especially_huge = 500000\<rparr>),
     ([0x8FBD, 0x5B81],  \<comment> \<open>Liaoning\<close>
      Standards \<lparr>large = 2000, huge = 70000, especially_huge = 400000\<rparr>
                \<lparr>large = 6000, huge = 60000, especially_huge = 500000\<rparr>),
     ([0x56DB, 0x5DDD],  \<comment> \<open>Sichuan\<close>
      Standards \<lparr>large = 1600, huge = 50000, especially_huge = 300000\<rparr>
                \<lparr>large = 5000, huge = 50000, especially_huge = 500000\<rparr>),
     ([0x5B89, 0x5FBD],  \<comment> \<open>Anhui\<close>
      Standards \<lparr>large = 2000, huge = 50000, especially_huge = 400000\<rparr>
                \<lparr>large = 5000, huge = 50000, especially_huge = 500000\<rparr>),
     ([0x9655, 0x897F],  \<comment> \<open>Shaanxi\<close>
      Standards \<lparr>large = 1000, huge = 30000, especially_huge = 300000\<rparr>
                \<lparr>large = 5000, huge = 50000, especially_huge = 500000\<rparr>),
     ([0x5C71, 0x897F],  \<comment> \<open>Shanxi\<close>
      Standards \<lparr>large = 1000, huge = 30000, especially_huge = 300000\<rparr>
                \<lparr>large = 5000, huge = 80000, especially_huge = 500000\<rparr>),
     ([0x6E56, 0x5357],  \<comment> \<open>Hunan\<close>
      Standards \<lparr>large = 2000, huge = 50000, especially_huge = 400000\<rparr>
                \<lparr>large = 5000, huge = 50000, especially_huge = 500000\<rparr>),
     ([0x6E56, 0x5317],  \<comment> \<open>Hubei\<close>
      Standards \<lparr>large = 2000, huge = 50000, especially_huge = 500000\<rparr>
                \<lparr>large = 5000, huge = 50000, especially_huge = 500000\<rparr>),
     ([0x798F, 0x5EFA],  \<comment> \<open>Fujian\<close>
      Standards \<lparr>large = 3000, huge = 60000, especially_huge = 300000\<rparr>
                \<lparr>large = 5000, huge = 100000, especially_huge = 500000\<rparr>),
     ([0x4E91, 0x5357],  \<comment> \<open>Yunnan\<close>
      Standards \<lparr>large = 1500, huge = 40000, especially_huge = 350000\<rparr>
                \<lparr>large = 5000, huge = 50000, especially_huge = 500000\<rparr>),
     ([0x5E7F, 0x897F],  \<comment> \<open>Guangxi\<close>
      Standards \<lparr>large = 1500, huge = 40000, especially_huge = 400000\<rparr>
                \<lparr>large = 5000, huge = 50000, especially_huge = 500000\<rparr>),
     ([0x6C5F, 0x897F],  \<comment> \<open>Jiangxi\<close>
      Standards \<lparr>large = 1500, huge = 50000, especially_huge = 400000\<rparr>
                \<lparr>large = 5000, huge = 50000, especially_huge = 500000\<rparr>),
     ([0x5409, 0x6797],  \<comment> \<open>Jilin\<close>
      Standards \<lparr>large = 2000, huge = 30000, especially_huge = 300000\<rparr>
                \<lparr>large = 5000, huge = 50000, especially_huge = 500000\<rparr>),
     ([0x9ED1, 0x9F99, 0x6C5F],  \<comment> \<open>Heilongjiang\<close>
      Standards \<lparr>large = 1500, huge = 50000, especially_huge = 350000\<rparr>
                \<lparr>large = 5000, huge = 50000, especially_huge = 500000\<rparr>),
     ([0x6D77, 0x5357],  \<comment> \<open>Hainan\<close>
      Standards \<lparr>large = 1500, huge = 15000, especially_huge = 70000\<rparr>
                \<lparr>large = 5000, huge = 50000, especially_huge = 500000\<rparr>),
     ([0x7518, 0x8083],  \<comment> \<open>Gansu\<close>
      Standards \<lparr>large = 2000, huge = 60000, especially_huge = 400000\<rparr>
                \<lparr>large = 3000, huge = 30000, especially_huge = 500000\<rparr>),
     ([0x9752, 0x6D77],  \<comment> \<open>Qinghai\<close>
      Standards \<lparr>large = 2000, huge = 30000, especially_huge = 300000\<rparr>
                \<lparr>large = 3000, huge = 30000, especially_huge = 500000\<rparr>),
     ([0x5185, 0x8499, 0x53E4],  \<comment> \<open>Neimenggu\<close>
      Standards \<lparr>large = 1600, huge = 30000, especially_huge = 300000\<rparr>
                \<lparr>large = 5000, huge = 50000, especially_huge = 500000\<rparr>),
     ([0x5B81, 0x590F],  \<comment> \<open>Ningxia\<close>
      Standards \<lparr>large = 1500, huge = 30000, especially_huge = 300000\<rparr>
                \<lparr>large = 3000, huge = 30000, especially_huge = 500000\<rparr>),
     ([0x897F, 0x85CF],  \<comment> \<open>Xizang\<close>
      Standards \<lparr>large = 2000, huge = 50000, especially_huge = 400000\<rparr>
                \<lparr>large = 6000, huge = 50000, especially_huge = 500000\<rparr>),
     ([0x65B0, 0x7586],  \<comment> \<open>Xinjiang\<close>
      Standards \<lparr>large = 1000, huge = 30000, especially_huge = 300000\<rparr>
                \<lparr>large = 3000, huge = 50000, especially_huge = 500000\<rparr>),
     (s_cities_to_provinces, Cities cities_to_provinces)
   ]"

text \<open>
  \<open>entry[crime_key]\<close>, where \<open>crime_key\<close> is \<open>"theft"\<close> or \<open>"fraud"\<close>: the city
  table has neither key, so the subscript raises \<open>KeyError\<close> there.
\<close>

datatype crime_key = Key_theft | Key_fraud

definition pick_standard :: "crime_key \<Rightarrow> amount_standard \<Rightarrow> amount_standard \<Rightarrow> amount_standard" where
  "pick_standard key theft fraud = (case key of Key_theft \<Rightarrow> theft | Key_fraud \<Rightarrow> fraud)"

definition subscript_crime_key :: "standards_entry \<Rightarrow> crime_key \<Rightarrow> py_error + amount_standard" where
  "subscript_crime_key entry key =
     (case entry of
        Standards theft fraud \<Rightarrow> Inr (pick_standard key theft fraud)
      | Cities cities \<Rightarrow> Inl KeyError)"

section \<open>Base sentence, jurisdiction-aware (1111/sentencing_calculator.py)\<close>

text \<open>
  \<open>get_regional_standard(region, crime_type)\<close>:
  \<^verbatim>\<open>
    crime_key = "theft" if <theft> in crime_type else "fraud" if <fraud> in crime_type else "theft"
    if region in REGIONAL_STANDARDS:
        return REGIONAL_STANDARDS[region][crime_key]
    for prov in REGIONAL_STANDARDS:
        if prov in region and prov != "default":
            return REGIONAL_STANDARDS[prov][crime_key]
    if region in REGIONAL_STANDARDS.get("cities_to_provinces", {}):
        province = REGIONAL_STANDARDS["cities_to_provinces"][region]
        if province in REGIONAL_STANDARDS:
            return REGIONAL_STANDARDS[province][crime_key]
    return REGIONAL_STANDARDS["default"][crime_key]
  \<close>
\<close>

definition crime_key_of :: "pystr \<Rightarrow> crime_key" where
  "crime_key_of crime_type =
     (if sublist s_theft crime_type then Key_theft
      else if sublist s_fraud crime_type then Key_fraud
      else Key_theft)"

definition subscript_default :: "(pystr \<times> standards_entry) list \<Rightarrow> crime_key \<Rightarrow> py_error + amount_standard" where
  "subscript_default table key =
     (case map_of table s_default of
        Some entry \<Rightarrow> subscript_crime_key entry key
      | None \<Rightarrow> Inl KeyError)"

text \<open>
  The \<open>for\<close> loop: the first entry, in the table's order, whose key occurs in the
  region string and is not \<open>"default"\<close>.
\<close>

definition first_contained_key ::
  "(pystr \<times> standards_entry) list \<Rightarrow> pystr \<Rightarrow> (pystr \<times> standards_entry) option" where
  "first_contained_key table region =
     find (\<lambda>(prov, entry). sublist prov region \<and> prov \<noteq> s_default) table"

definition get_regional_standard :: "pystr \<Rightarrow> pystr \<Rightarrow> py_error + amount_standard" where
  "get_regional_standard region crime_type =
     (let crime_key = crime_key_of crime_type
      in case map_of REGIONAL_STANDARDS_sc1111 region of
           Some entry \<Rightarrow> subscript_crime_key entry crime_key
         | None \<Rightarrow>
             (case first_contained_key REGIONAL_STANDARDS_sc1111 region of
                Some (prov, entry) \<Rightarrow> subscript_crime_key entry crime_key
              | None \<Rightarrow>
                  (case map_of cities_to_provinces region of
                     Some province \<Rightarrow>
                       (case map_of REGIONAL_STANDARDS_sc1111 province of
                          Some entry \<Rightarrow> subscript_crime_key entry crime_key
                        | None \<Rightarrow> subscript_default REGIONAL_STANDARDS_sc1111 crime_key)
                   | None \<Rightarrow> subscript_default REGIONAL_STANDARDS_sc1111 crime_key)))"

text \<open>\<open>determine_amount_level(amount, standards)\<close>.\<close>

definition determine_amount_level :: "real \<Rightarrow> amount_standard \<Rightarrow> pystr" where
  "determine_amount_level amount standards =
     (if amount \<ge> of_int (especially_huge standards) then s_level_especially_huge
      else if amount \<ge> of_int (huge standards) then s_level_huge
      else if amount \<ge> of_int (large standards) then s_level_large
      else s_level_small)"

text \<open>
  \<open>calculate_base_sentence(crime_type, amount=None, injury_level=None,
  region="default")\<close>.  The amount level is computed only when an amount is given and
  the crime type contains the word theft or the word fraud; otherwise it is \<open>None\<close>.
  The theft branch and the fraud branch have the same body.
\<close>

definition amount_bracket_months :: "pystr option \<Rightarrow> pystr option \<Rightarrow> int" where
  "amount_bracket_months amount_level injury_level =
     (if amount_level = Some s_level_large then 6
      else if amount_level = Some s_level_huge then 24
      else if amount_level = Some s_level_especially_huge then 48
      else if injury_level = Some s_minor_injury then 18
      else if injury_level = Some s_serious_injury then 60
      else 12)"

definition calculate_base_sentence_sc1111 ::
  "pystr \<Rightarrow> real option \<Rightarrow> pystr option \<Rightarrow> pystr \<Rightarrow> py_error + int" where
  "calculate_base_sentence_sc1111 crime_type amount injury_level region =
     (case (case amount of
              Some a \<Rightarrow>
                if sublist s_theft crime_type \<or> sublist s_fraud crime_type
                then (case get_regional_standard region crime_type of
                        Inl e \<Rightarrow> Inl e
                      | Inr standards \<Rightarrow> Inr (Some (determine_amount_level a standards)))
                else Inr None
            | None \<Rightarrow> Inr None) of
        Inl e \<Rightarrow> Inl e
      | Inr amount_level \<Rightarrow>
          Inr (if sublist s_theft crime_type then amount_bracket_months amount_level injury_level
               else if sublist s_fraud crime_type then amount_bracket_months amount_level injury_level
               else if sublist s_injury crime_type then
                 (if injury_level = Some s_minor_injury then 18
                  else if injury_level = Some s_serious_injury then 60
                  else 120)
               else 12))"

section \<open>Base sentence, progressive brackets (1124/cal.py)\<close>

text \<open>
  \<open>calculate_base_sentence(crime_type, amount=None, injury_level=None,
  region="default", theft_count=None)\<close> of \<open>1124/cal.py\<close>.  It first selects the
  jurisdiction's entry:
  \<^verbatim>\<open>
    if region in REGIONAL_STANDARDS:
        standards = REGIONAL_STANDARDS[region]
    elif region in REGIONAL_STANDARDS.get("cities_to_provinces", {}):
        province = REGIONAL_STANDARDS["cities_to_provinces"][region]
        standards = REGIONAL_STANDARDS[province]
    else:
        standards = REGIONAL_STANDARDS["default"]
  \<close>
\<close>

definition select_standards :: "pystr \<Rightarrow> py_error + standards_entry" where
  "select_standards region =
     (case map_of REGIONAL_STANDARDS_cal1124 region of
        Some entry \<Rightarrow> Inr entry
      | None \<Rightarrow>
          (case map_of cities_to_provinces region of
             Some province \<Rightarrow>
               (case map_of REGIONAL_STANDARDS_cal1124 province of
                  Some entry \<Rightarrow> Inr entry
                | None \<Rightarrow> Inl KeyError)
           | None \<Rightarrow>
               (case map_of REGIONAL_STANDARDS_cal1124 s_default of
                  Some entry \<Rightarrow> Inr entry
                | None \<Rightarrow> Inl KeyError)))"

text \<open>
  The theft branch, after \<open>theft_standards = standards["theft"]\<close>:
  \<^verbatim>\<open>
    if amount is None:
        base = 12
    elif amount < theft_standards["large"]:
        base = 6
    elif amount < theft_standards["huge"]:
        base = 6
        excess = amount - theft_standards["large"]
        additional = int(excess / 2000) * 1
        base = min(base + additional, 36)
    elif amount < theft_standards["especially_huge"]:
        base = 36
        excess = amount - theft_standards["huge"]
        additional = int(excess / 3000) * 1.5
        base = min(int(base + additional), 72)
    else:
        base = 120
        excess = amount - theft_standards["especially_huge"]
        additional = int(excess / 50000) * 1
        base = min(int(base + additional), 180)
    if theft_count is not None and theft_count > 3:
        additional_months = int((theft_count - 3) / 2)
        base += additional_months
    return base
  \<close>
\<close>

definition theft_amount_base :: "amount_standard \<Rightarrow> real option \<Rightarrow> int" where
  "theft_amount_base theft_standards amount =
     (case amount of
        None \<Rightarrow> 12
      | Some a \<Rightarrow>
          if a < of_int (large theft_standards) then 6
          else if a < of_int (huge theft_standards) then
            (let excess = a - of_int (large theft_standards);
                 additional = py_int (excess / 2000) * 1
             in min (6 + additional) 36)
          else if a < of_int (especially_huge theft_standards) then
            (let excess = a - of_int (huge theft_standards);
                 additional = of_int (py_int (excess / 3000)) * (15 / 10)
             in min (py_int (36 + additional)) 72)
          else
            (let excess = a - of_int (especially_huge theft_standards);
                 additional = py_int (excess / 50000) * 1
             in min (py_int (of_int (120 + additional))) 180))"

definition theft_base :: "amount_standard \<Rightarrow> real option \<Rightarrow> int option \<Rightarrow> int" where
  "theft_base theft_standards amount theft_count =
     (let base = theft_amount_base theft_standards amount
      in case theft_count of
           None \<Rightarrow> base
         | Some n \<Rightarrow>
             if n > 3 then base + py_int (of_int (n - 3) / 2) else base)"

text \<open>The fraud branch: the same shape with other steps and caps, and no count.\<close>

definition fraud_base :: "amount_standard \<Rightarrow> real option \<Rightarrow> int" where
  "fraud_base fraud_standards amount =
     (case amount of
        None \<Rightarrow> 12
      | Some a \<Rightarrow>
          if a < of_int (large fraud_standards) then 6
          else if a < of_int (huge fraud_standards) then
            (let excess = a - of_int (large fraud_standards);
                 additional = py_int (excess / 1000) * 2
             in min (6 + additional) 36)
          else if a < of_int (especially_huge fraud_standards) then
            (let excess = a - of_int (huge fraud_standards);
                 additional = of_int (py_int (excess / 10000)) * (15 / 10)
             in min (py_int (36 + additional)) 120)
          else
            (let excess = a - of_int (especially_huge fraud_standards);
                 additional = py_int (excess / 100000) * 1
             in min (py_int (of_int (120 + additional))) 180))"

text \<open>The embezzlement branch has fixed thresholds.\<close>

definition embezzlement_base :: "real option \<Rightarrow> int" where
  "embezzlement_base amount =
     (case amount of
        None \<Rightarrow> 12
      | Some a \<Rightarrow>
          if a < 60000 then 6
          else if a < 1000000 then
            (let excess = a - 60000;
                 additional = py_int (excess / 940000 * 30)
             in min (6 + additional) 36)
          else if a < 15000000 then
            (let excess = a - 1000000;
                 additional = py_int (excess / 14000000 * 84)
             in min (py_int (of_int (36 + additional))) 120)
          else
            (let excess = a - 15000000;
                 additional = py_int (excess / 1000000)
             in min (py_int (of_int (120 + additional))) 180))"

text \<open>The injury branch is \<open>injury_map.get(injury_level, 12)\<close>.\<close>

definition injury_map :: "(pystr \<times> int) list" where
  "injury_map =
     [(s_minor_injury_1, 18), (s_minor_injury_2, 12), (s_serious_injury_1, 72),
      (s_serious_injury_2, 48), (s_death_caused, 120), (s_death, 120)]"

definition injury_base :: "pystr option \<Rightarrow> int" where
  "injury_base injury_level =
     (case injury_level of
        None \<Rightarrow> 12
      | Some level \<Rightarrow> (case map_of injury_map level of Some months \<Rightarrow> months | None \<Rightarrow> 12))"

definition calculate_base_sentence_cal1124 ::
  "pystr \<Rightarrow> real option \<Rightarrow> pystr option \<Rightarrow> pystr \<Rightarrow> int option \<Rightarrow> py_error + int" where
  "calculate_base_sentence_cal1124 crime_type amount injury_level region theft_count =
     (case select_standards region of
        Inl e \<Rightarrow> Inl e
      | Inr standards \<Rightarrow>
          if crime_type = s_theft_crime then
            (case subscript_crime_key standards Key_theft of
               Inl e \<Rightarrow> Inl e
             | Inr theft_standards \<Rightarrow> Inr (theft_base theft_standards amount theft_count))
          else if crime_type = s_fraud_crime then
            (case subscript_crime_key standards Key_fraud of
               Inl e \<Rightarrow> Inl e
             | Inr fraud_standards \<Rightarrow> Inr (fraud_base fraud_standards amount))
          else if crime_type = s_embezzlement_crime then Inr (embezzlement_base amount)
          else if crime_type = s_injury_crime then Inr (injury_base injury_level)
          else Inr 12)"

section \<open>Factor adjustment engine\<close>

text \<open>
  A factor is a dictionary with the keys \<open>"name"\<close> and \<open>"ratio"\<close>.
\<close>

record factor =
  name :: pystr
  ratio :: real













section \<open>Range converter\<close>

text \<open>
  \<open>months_to_range\<close> of \<open>1111/sentencing_calculator.py\<close> (\<open>width: int = 4\<close>):
  \<^verbatim>\<open>
    half_width = width // 2
    min_months = max(1, round(center_months - half_width))
    max_months = max(1, round(center_months + half_width))
    return [min_months, max_months]
  \<close>
  An omitted \<open>width\<close> is \<open>None\<close> here and takes the default.
\<close>

definition months_to_range_sc1111 :: "real \<Rightarrow> int option \<Rightarrow> int list" where
  "months_to_range_sc1111 center_months width_arg =
     (let width = (case width_arg of None \<Rightarrow> 4 | Some w \<Rightarrow> w);
          half_width = width div 2;
          min_months = max 1 (py_round (center_months - of_int half_width));
          max_months = max 1 (py_round (center_months + of_int half_width))
      in [min_months, max_months])"

text \<open>
  \<open>months_to_range\<close> of \<open>1124/cal.py\<close> (\<open>width: int = 12\<close>).  Its first statement
  assigns \<open>width = max(6, min(12, center_months * 0.15))\<close> whatever the caller passed;
  then \<open>half_width = width / 2\<close> and the two bounds as above.
\<close>

definition months_to_range_cal1124 :: "real \<Rightarrow> int option \<Rightarrow> int list" where
  "months_to_range_cal1124 center_months width_arg =
     (let width = max 6 (min 12 (center_months * (15 / 100)));
          half_width = width / 2;
          min_months = max 1 (py_round (center_months - half_width));
          max_months = max 1 (py_round (center_months + half_width))
      in [min_months, max_months])"

section \<open>Legal range validator\<close>

text \<open>
  \<open>validate_legal_range\<close> (the same body in every variant of the calculator):
  \<^verbatim>\<open>
    if months < min_legal:
        return min_legal
    elif months > max_legal:
        return max_legal
    return months
  \<close>
\<close>

definition validate_legal_range :: "int \<Rightarrow> int \<Rightarrow> int \<Rightarrow> int" where
  "validate_legal_range months min_legal max_legal =
     (if months < min_legal then min_legal
      else if months > max_legal then max_legal
      else months)"

section \<open>Factor matcher (1112/cal.py)\<close>

text \<open>
  \<open>LAYER1_FACTORS\<close> and \<open>LAYER2_FACTORS\<close> are dictionaries from a canonical phrase to
  a dictionary with the phrase again as \<open>"name"\<close> and its coefficient: a \<open>"ratio"\<close> in
  the first table, an \<open>"adjustment_pct"\<close> in the second.  They are association lists
  in the order of the source, which is the order \<open>.items()\<close> iterates.
\<close>

record layer1_entry =
  l1_name :: pystr
  l1_ratio :: real

record layer2_entry =
  l2_name :: pystr
  l2_adjustment_pct :: int

definition LAYER1_FACTORS :: "(pystr \<times> layer1_entry) list" where
  "LAYER1_FACTORS = [
     ([0x672A, 0x6210, 0x5E74, 0x4EBA, 0xFF08, 0x31, 0x36, 0x2D, 0x31, 0x38, 0x5C81, 0xFF09],
        \<lparr>l1_name = [0x672A, 0x6210, 0x5E74, 0x4EBA, 0xFF08, 0x31, 0x36, 0x2D, 0x31, 0x38, 0x5C81, 0xFF09], l1_ratio = 70 / 100\<rparr>),
     ([0x672A, 0x6210, 0x5E74, 0x4EBA, 0xFF08, 0x31, 0x34, 0x2D, 0x31, 0x36, 0x5C81, 0xFF09],
        \<lparr>l1_name = [0x672A, 0x6210, 0x5E74, 0x4EBA, 0xFF08, 0x31, 0x34, 0x2D, 0x31, 0x36, 0x5C81, 0xFF09], l1_ratio = 50 / 100\<rparr>),
     ([0x4ECE, 0x72AF, 0xFF08, 0x4F5C, 0x7528, 0x8F83, 0x5C0F, 0xFF09],
        \<lparr>l1_name = [0x4ECE, 0x72AF, 0xFF08, 0x4F5C, 0x7528, 0x8F83, 0x5C0F, 0xFF09], l1_ratio = 60 / 100\<rparr>),
     ([0x4ECE, 0x72AF, 0xFF08, 0x4E00, 0x822C, 0xFF09],
        \<lparr>l1_name = [0x4ECE, 0x72AF, 0xFF08, 0x4E00, 0x822C, 0xFF09], l1_ratio = 70 / 100\<rparr>),
     ([0x80C1, 0x4ECE, 0x72AF],
        \<lparr>l1_name = [0x80C1, 0x4ECE, 0x72AF], l1_ratio = 40 / 100\<rparr>),
     ([0x72AF, 0x7F6A, 0x9884, 0x5907],
        \<lparr>l1_name = [0x72AF, 0x7F6A, 0x9884, 0x5907], l1_ratio = 40 / 100\<rparr>),
     ([0x72AF, 0x7F6A, 0x4E2D, 0x6B62, 0xFF08, 0x81EA, 0x52A8, 0x6709, 0x6548, 0xFF09],
        \<lparr>l1_name = [0x72AF, 0x7F6A, 0x4E2D, 0x6B62, 0xFF08, 0x81EA, 0x52A8, 0x6709, 0x6548, 0xFF09], l1_ratio = 30 / 100\<rparr>),
     ([0x72AF, 0x7F6A, 0x4E2D, 0x6B62, 0xFF08, 0x4E00, 0x822C, 0xFF09],
        \<lparr>l1_name = [0x72AF, 0x7F6A, 0x4E2D, 0x6B62, 0xFF08, 0x4E00, 0x822C, 0xFF09], l1_ratio = 40 / 100\<rparr>),
     ([0x72AF, 0x7F6A, 0x672A, 0x9042, 0xFF08, 0x610F, 0x5FD7, 0x4EE5, 0x5916, 0xFF09],
        \<lparr>l1_name = [0x72AF, 0x7F6A, 0x672A, 0x9042, 0xFF08, 0x610F, 0x5FD7, 0x4EE5, 0x5916, 0xFF09], l1_ratio = 70 / 100\<rparr>),
     ([0x72AF, 0x7F6A, 0x672A, 0x9042, 0xFF08, 0x80FD, 0x529B, 0x4E0D, 0x8DB3, 0xFF09],
        \<lparr>l1_name = [0x72AF, 0x7F6A, 0x672A, 0x9042, 0xFF08, 0x80FD, 0x529B, 0x4E0D, 0x8DB3, 0xFF09], l1_ratio = 60 / 100\<rparr>),
     ([0x9650, 0x5236, 0x5211, 0x4E8B, 0x8D23, 0x4EFB, 0x80FD, 0x529B],
        \<lparr>l1_name = [0x9650, 0x5236, 0x5211, 0x4E8B, 0x8D23, 0x4EFB, 0x80FD, 0x529B], l1_ratio = 60 / 100\<rparr>),
     ([0x53C8, 0x804B, 0x53C8, 0x54D1, 0x2F, 0x76F2, 0x4EBA],
        \<lparr>l1_name = [0x53C8, 0x804B, 0x53C8, 0x54D1, 0x2F, 0x76F2, 0x4EBA], l1_ratio = 70 / 100\<rparr>),
     ([0x9632, 0x536B, 0x8FC7, 0x5F53],
        \<lparr>l1_name = [0x9632, 0x536B, 0x8FC7, 0x5F53], l1_ratio = 50 / 100\<rparr>)
   ]"

definition LAYER2_FACTORS :: "(pystr \<times> layer2_entry) list" where
  "LAYER2_FACTORS = [
     ([0x7D2F, 0x72AF],
        \<lparr>l2_name = [0x7D2F, 0x72AF], l2_adjustment_pct = 25\<rparr>),
     ([0x81EA, 0x9996, 0xFF08, 0x4E3B, 0x52A8, 0x6295, 0x6848, 0xFF09],
        \<lparr>l2_name = [0x81EA, 0x9996, 0xFF08, 0x4E3B, 0x52A8, 0x6295, 0x6848, 0xFF09], l2_adjustment_pct = -35\<rparr>),
     ([0x81EA, 0x9996, 0xFF08, 0x6293, 0x83B7, 0x540E, 0xFF09],
        \<lparr>l2_name = [0x81EA, 0x9996, 0xFF08, 0x6293, 0x83B7, 0x540E, 0xFF09], l2_adjustment_pct = -25\<rparr>),
     ([0x5766, 0x767D],
        \<lparr>l2_name = [0x5766, 0x767D], l2_adjustment_pct = -15\<rparr>),
     ([0x8BA4, 0x7F6A, 0x8BA4, 0x7F5A, 0xFF08, 0x5177, 0x7ED3, 0x4E66, 0xFF09],
        \<lparr>l2_name = [0x8BA4, 0x7F6A, 0x8BA4, 0x7F5A, 0xFF08, 0x5177, 0x7ED3, 0x4E66, 0xFF09], l2_adjustment_pct = -20\<rparr>),
     ([0x8BA4, 0x7F6A, 0x8BA4, 0x7F5A, 0xFF08, 0x53E3, 0x5934, 0xFF09],
        \<lparr>l2_name = [0x8BA4, 0x7F6A, 0x8BA4, 0x7F5A, 0xFF08, 0x53E3, 0x5934, 0xFF09], l2_adjustment_pct = -15\<rparr>),
     ([0x4E00, 0x822C, 0x7ACB, 0x529F],
        \<lparr>l2_name = [0x4E00, 0x822C, 0x7ACB, 0x529F], l2_adjustment_pct = -15\<rparr>),
     ([0x91CD, 0x5927, 0x7ACB, 0x529F],
        \<lparr>l2_name = [0x91CD, 0x5927, 0x7ACB, 0x529F], l2_adjustment_pct = -30\<rparr>),
     ([0x9000, 0x8D43, 0x9000, 0x8D54, 0xFF08, 0x5168, 0x90E8, 0xFF09],
        \<lparr>l2_name = [0x9000, 0x8D43, 0x9000, 0x8D54, 0xFF08, 0x5168, 0x90E8, 0xFF09], l2_adjustment_pct = -25\<rparr>),
     ([0x9000, 0x8D43, 0x9000, 0x8D54, 0xFF08, 0x90E8, 0x5206, 0xFF09],
        \<lparr>l2_name = [0x9000, 0x8D43, 0x9000, 0x8D54, 0xFF08, 0x90E8, 0x5206, 0xFF09], l2_adjustment_pct = -15\<rparr>),
     ([0x53D6, 0x5F97, 0x8C05, 0x89E3],
        \<lparr>l2_name = [0x53D6, 0x5F97, 0x8C05, 0x89E3], l2_adjustment_pct = -20\<rparr>),
     ([0x5211, 0x4E8B, 0x548C, 0x89E3],
        \<lparr>l2_name = [0x5211, 0x4E8B, 0x548C, 0x89E3], l2_adjustment_pct = -35\<rparr>),
     ([0x6709, 0x524D, 0x79D1, 0xFF08, 0x540C, 0x7C7B, 0xFF09],
        \<lparr>l2_name = [0x6709, 0x524D, 0x79D1, 0xFF08, 0x540C, 0x7C7B, 0xFF09], l2_adjustment_pct = 20\<rparr>),
     ([0x6709, 0x524D, 0x79D1, 0xFF08, 0x5176, 0x4ED6, 0xFF09],
        \<lparr>l2_name = [0x6709, 0x524D, 0x79D1, 0xFF08, 0x5176, 0x4ED6, 0xFF09], l2_adjustment_pct = 15\<rparr>),
     ([0x591A, 0x6B21, 0x72AF, 0x7F6A, 0xFF08, 0x33, 0x6B21, 0x2B, 0xFF09],
        \<lparr>l2_name = [0x591A, 0x6B21, 0x72AF, 0x7F6A, 0xFF08, 0x33, 0x6B21, 0x2B, 0xFF09], l2_adjustment_pct = 25\<rparr>),
     ([0x591A, 0x6B21, 0x72AF, 0x7F6A, 0xFF08, 0x32, 0x6B21, 0xFF09],
        \<lparr>l2_name = [0x591A, 0x6B21, 0x72AF, 0x7F6A, 0xFF08, 0x32, 0x6B21, 0xFF09], l2_adjustment_pct = 15\<rparr>),
     ([0x9020, 0x6210, 0x4E25, 0x91CD, 0x540E, 0x679C],
        \<lparr>l2_name = [0x9020, 0x6210, 0x4E25, 0x91CD, 0x540E, 0x679C], l2_adjustment_pct = 35\<rparr>)
   ]"

text \<open>
  The result of a match is a dictionary with the keys \<open>"name"\<close>, the coefficient and
  \<open>"match_reason"\<close>.  The reason is one of two strings: "matched" followed by the key in
  quotes (\<open>Matched key\<close>), or the fixed text "no specific factor matched, the default
  is used" (\<open>No_match\<close>).  The default's name is "general factor"
  (\<open>yi ban qing jie\<close>).
\<close>

datatype match_reason = Matched pystr | No_match

record layer1_match =
  m1_name :: pystr
  m1_ratio :: real
  m1_match_reason :: match_reason

record layer2_match =
  m2_name :: pystr
  m2_adjustment_pct :: int
  m2_match_reason :: match_reason

abbreviation s_general_factor :: pystr where
  "s_general_factor \<equiv> [0x4E00, 0x822C, 0x60C5, 0x8282]"

text \<open>
  \<open>match_layer1_factor(description)\<close>:
  \<^verbatim>\<open>
    for key, factor in SentencingCalculator.LAYER1_FACTORS.items():
        if key in description:
            return {"name": factor["name"], "ratio": factor["ratio"],
                    "match_reason": <matched 'key'>}
    return {"name": <general factor>, "ratio": 1.0, "match_reason": <no match>}
  \<close>
  and \<open>match_layer2_factor\<close> likewise, over \<open>LAYER2_FACTORS\<close>, with
  \<open>"adjustment_pct"\<close> and the default 0.
\<close>

fun match_layer1_loop :: "(pystr \<times> layer1_entry) list \<Rightarrow> pystr \<Rightarrow> layer1_match option" where
  "match_layer1_loop [] description = None"
| "match_layer1_loop ((key, factor) # rest) description =
     (if sublist key description
      then Some \<lparr>m1_name = l1_name factor, m1_ratio = l1_ratio factor,
                 m1_match_reason = Matched key\<rparr>
      else match_layer1_loop rest description)"

definition match_layer1_factor :: "pystr \<Rightarrow> layer1_match" where
  "match_layer1_factor description =
     (case match_layer1_loop LAYER1_FACTORS description of
        Some result \<Rightarrow> result
      | None \<Rightarrow> \<lparr>m1_name = s_general_factor, m1_ratio = 1, m1_match_reason = No_match\<rparr>)"

fun match_layer2_loop :: "(pystr \<times> layer2_entry) list \<Rightarrow> pystr \<Rightarrow> layer2_match option" where
  "match_layer2_loop [] description = None"
| "match_layer2_loop ((key, factor) # rest) description =
     (if sublist key description
      then Some \<lparr>m2_name = l2_name factor, m2_adjustment_pct = l2_adjustment_pct factor,
                 m2_match_reason = Matched key\<rparr>
      else match_layer2_loop rest description)"

definition match_layer2_factor :: "pystr \<Rightarrow> layer2_match" where
  "match_layer2_factor description =
     (case match_layer2_loop LAYER2_FACTORS description of
        Some result \<Rightarrow> result
      | None \<Rightarrow> \<lparr>m2_name = s_general_factor, m2_adjustment_pct = 0, m2_match_reason = No_match\<rparr>)"

section \<open>Predicates used in the statements\<close>

text \<open>
  The invariant of an amount standard named by the spec: the three thresholds are
  positive and strictly ascending.
\<close>

definition positive_ordered :: "amount_standard \<Rightarrow> bool" where
  "positive_ordered st \<longleftrightarrow>
     0 < large st \<and> large st < huge st \<and> huge st < especially_huge st"

text \<open>
  An entry of a jurisdiction table is well formed when it is either a jurisdiction with
  two such standards, under a key other than \<open>"cities_to_provinces"\<close>, or the city
  table under that key.
\<close>

definition well_formed_entry :: "pystr \<times> standards_entry \<Rightarrow> bool" where
  "well_formed_entry kv =
     (case kv of
        (k, Standards th fr) \<Rightarrow>
          k \<noteq> s_cities_to_provinces \<and> positive_ordered th \<and> positive_ordered fr
      | (k, Cities c) \<Rightarrow> k = s_cities_to_provinces)"

definition is_standards :: "standards_entry option \<Rightarrow> bool" where
  "is_standards e = (case e of Some (Standards th fr) \<Rightarrow> True | _ \<Rightarrow> False)"


chapter \<open>Properties\<close>

section \<open>Rounding\<close>





section \<open>The factor loops\<close>










section \<open>Truncation\<close>

lemma py_int_of_int: "py_int (of_int n) = n"
  by (simp add: py_int_def)

lemma py_int_mono: "x \<le> y \<Longrightarrow> py_int x \<le> py_int y"
  unfolding py_int_def
  by (auto intro: floor_mono ceiling_mono) (smt (verit) ceiling_le_zero zero_le_floor)

lemma py_int_nonneg: "0 \<le> x \<Longrightarrow> 0 \<le> py_int x"
  by (simp add: py_int_def)

lemma py_int_excess_mono:
  "a1 \<le> a2 \<Longrightarrow> 0 < c \<Longrightarrow> py_int ((a1 - t) / c) \<le> py_int ((a2 - t) / c)"
  by (intro py_int_mono) (simp add: divide_right_mono)

lemma py_int_excess_nonneg:
  "t \<le> a \<Longrightarrow> 0 < c \<Longrightarrow> 0 \<le> py_int ((a - t) / c)"
  by (simp add: py_int_nonneg)

lemma py_int_one_and_half_ge: "0 \<le> n \<Longrightarrow> 36 \<le> py_int (36 + of_int n * (15 / 10))"
proof -
  assume "0 \<le> n"
  then have "py_int (of_int 36) \<le> py_int (36 + of_int n * (15 / 10))"
    by (intro py_int_mono) simp
  then show ?thesis
    by (simp add: py_int_of_int del: of_int_numeral)
qed

lemma py_int_one_and_half_mono:
  "n1 \<le> n2 \<Longrightarrow> py_int (36 + of_int n1 * (15 / 10)) \<le> py_int (36 + of_int n2 * (15 / 10))"
  by (intro py_int_mono) simp

section \<open>The jurisdiction tables\<close>

lemma well_formed_cal1124: "list_all well_formed_entry REGIONAL_STANDARDS_cal1124"
  by (simp add: REGIONAL_STANDARDS_cal1124_def well_formed_entry_def positive_ordered_def)

lemma well_formed_sc1111: "list_all well_formed_entry REGIONAL_STANDARDS_sc1111"
  by (simp add: REGIONAL_STANDARDS_sc1111_def well_formed_entry_def positive_ordered_def)

text \<open>
  No key is written twice in a table, so the first binding \<open>map_of\<close> finds is the
  only one, as in the Python dictionary.
\<close>

lemma table_keys_distinct:
  "distinct (map fst REGIONAL_STANDARDS_sc1111)"
  "distinct (map fst REGIONAL_STANDARDS_cal1124)"
  "distinct (map fst cities_to_provinces)"
  "distinct (map fst LAYER1_FACTORS)"
  "distinct (map fst LAYER2_FACTORS)"
  "distinct (map fst injury_map)"
  by (simp_all add: REGIONAL_STANDARDS_sc1111_def REGIONAL_STANDARDS_cal1124_def
      cities_to_provinces_def LAYER1_FACTORS_def LAYER2_FACTORS_def injury_map_def)

text \<open>
  The value under the key \<open>"cities_to_provinces"\<close>, which
  \<open>REGIONAL_STANDARDS.get("cities_to_provinces", {})\<close> reads, is the city table.
\<close>

lemma cities_entry:
  "map_of REGIONAL_STANDARDS_sc1111 s_cities_to_provinces = Some (Cities cities_to_provinces)"
  "map_of REGIONAL_STANDARDS_cal1124 s_cities_to_provinces = Some (Cities cities_to_provinces)"
  by (simp_all add: REGIONAL_STANDARDS_sc1111_def REGIONAL_STANDARDS_cal1124_def)

text \<open>In the table of 1124 every city's province is a jurisdiction of the table.\<close>

lemma cities_in_cal1124:
  "list_all (\<lambda>(c, p). is_standards (map_of REGIONAL_STANDARDS_cal1124 p)) cities_to_provinces"
  unfolding REGIONAL_STANDARDS_cal1124_def cities_to_provinces_def is_standards_def
  by (simp only: list.pred_inject prod.case map_of_Cons_code list.inject num.simps rel_simps
        simp_thms if_True if_False option.simps standards_entry.simps)

lemma default_cal1124:
  "map_of REGIONAL_STANDARDS_cal1124 s_default =
     Some (Standards \<lparr>large = 1000, huge = 30000, especially_huge = 300000\<rparr>
                     \<lparr>large = 3000, huge = 30000, especially_huge = 500000\<rparr>)"
  by (simp add: REGIONAL_STANDARDS_cal1124_def)

lemma default_sc1111:
  "map_of REGIONAL_STANDARDS_sc1111 s_default =
     Some (Standards \<lparr>large = 1000, huge = 30000, especially_huge = 300000\<rparr>
                     \<lparr>large = 3000, huge = 30000, especially_huge = 500000\<rparr>)"
  by (simp add: REGIONAL_STANDARDS_sc1111_def)

lemma entry_well_formed:
  assumes "list_all well_formed_entry table" "map_of table k = Some e"
  shows "well_formed_entry (k, e)"
  using assms by (auto simp: list_all_iff dest: map_of_SomeD)

lemma subscript_Standards:
  "subscript_crime_key (Standards th fr) key = Inr (pick_standard key th fr)"
  by (simp add: subscript_crime_key_def)

lemma subscript_Cities: "subscript_crime_key (Cities c) key = Inl KeyError"
  by (simp add: subscript_crime_key_def)

lemma subscript_default_sc1111:
  "subscript_default REGIONAL_STANDARDS_sc1111 key =
     Inr (pick_standard key \<lparr>large = 1000, huge = 30000, especially_huge = 300000\<rparr>
            \<lparr>large = 3000, huge = 30000, especially_huge = 500000\<rparr>)"
  by (simp add: subscript_default_def default_sc1111 subscript_Standards)

lemma find_SomeD: "find P xs = Some x \<Longrightarrow> x \<in> set xs \<and> P x"
  by (auto simp: find_Some_iff)

section \<open>Selecting the standards in 1124\<close>

lemma city_province_cal1124:
  assumes "map_of cities_to_provinces region = Some province"
  shows "\<exists>th fr. map_of REGIONAL_STANDARDS_cal1124 province = Some (Standards th fr)"
proof -
  from assms have "(region, province) \<in> set cities_to_provinces"
    by (rule map_of_SomeD)
  with cities_in_cal1124 have "is_standards (map_of REGIONAL_STANDARDS_cal1124 province)"
    by (auto simp: list_all_iff)
  then show ?thesis
    by (auto simp: is_standards_def split: option.splits standards_entry.splits)
qed


lemma select_standards_Standards:
  assumes "region \<noteq> s_cities_to_provinces"
  shows "\<exists>th fr. select_standards region = Inr (Standards th fr) \<and>
           positive_ordered th \<and> positive_ordered fr"
proof (cases "map_of REGIONAL_STANDARDS_cal1124 region")
  case (Some e)
  then have "well_formed_entry (region, e)"
    using well_formed_cal1124 by (intro entry_well_formed)
  with assms Some show ?thesis
    by (cases e) (simp_all add: well_formed_entry_def select_standards_def)
next
  case None
  show ?thesis
  proof (cases "map_of cities_to_provinces region")
    case no_city: None
    with None show ?thesis
      by (simp add: select_standards_def default_cal1124 positive_ordered_def)
  next
    case (Some province)
    then obtain th fr
      where e: "map_of REGIONAL_STANDARDS_cal1124 province = Some (Standards th fr)"
      using city_province_cal1124 by blast
    then have "well_formed_entry (province, Standards th fr)"
      using well_formed_cal1124 by (intro entry_well_formed)
    with None Some e show ?thesis
      by (simp add: select_standards_def well_formed_entry_def)
  qed
qed

section \<open>The progressive brackets of 1124\<close>

lemma theft_amount_base_below_large:
  "a < of_int (large st) \<Longrightarrow> theft_amount_base st (Some a) = 6"
  by (simp add: theft_amount_base_def)

lemma fraud_base_below_large:
  "a < of_int (large st) \<Longrightarrow> fraud_base st (Some a) = 6"
  by (simp add: fraud_base_def)

text \<open>The amount part of the theft base never exceeds the ceiling of 180 months.\<close>

lemma theft_amount_base_le_180: "theft_amount_base st amount \<le> 180"
  by (simp add: theft_amount_base_def Let_def min_le_iff_disj split: option.splits)

text \<open>
  In the top bracket the amount part is the floor of 120 months plus one month for
  every 50000 above the threshold, capped at 180.
\<close>

lemma theft_amount_base_top_bracket:
  assumes "positive_ordered st" "of_int (especially_huge st) \<le> a"
  shows "theft_amount_base st (Some a) =
           min (120 + \<lfloor>(a - of_int (especially_huge st)) / 50000\<rfloor>) 180"
    and "120 \<le> theft_amount_base st (Some a)"
proof -
  have lt: "(of_int (large st) :: real) < of_int (huge st)"
    "(of_int (huge st) :: real) < of_int (especially_huge st)"
    using assms(1) by (simp_all add: positive_ordered_def)
  then have ge: "\<not> a < of_int (large st)" "\<not> a < of_int (huge st)"
    "\<not> a < of_int (especially_huge st)"
    using assms(2) by linarith+
  have nn: "0 \<le> (a - of_int (especially_huge st)) / 50000"
    using assms(2) by simp
  show "theft_amount_base st (Some a) =
           min (120 + \<lfloor>(a - of_int (especially_huge st)) / 50000\<rfloor>) 180"
    using ge nn by (simp add: theft_amount_base_def Let_def py_int_def)
  then show "120 \<le> theft_amount_base st (Some a)"
    using nn by simp
qed

text \<open>
  For a fixed standard (and a fixed count) the bases of 1124 are non-decreasing in the
  amount.
\<close>

lemma theft_amount_base_mono:
  assumes "a1 \<le> a2"
  shows "theft_amount_base st (Some a1) \<le> theft_amount_base st (Some a2)"
proof -
  let ?L = "of_int (large st) :: real" and ?H = "of_int (huge st) :: real"
    and ?E = "of_int (especially_huge st) :: real"
  have m1: "py_int ((a1 - ?L) / 2000) \<le> py_int ((a2 - ?L) / 2000)"
    and m2: "py_int ((a1 - ?H) / 3000) \<le> py_int ((a2 - ?H) / 3000)"
    and m3: "py_int ((a1 - ?E) / 50000) \<le> py_int ((a2 - ?E) / 50000)"
    using assms by (simp_all add: py_int_excess_mono)
  have n1: "?L \<le> a \<Longrightarrow> 0 \<le> py_int ((a - ?L) / 2000)"
    and n2: "?H \<le> a \<Longrightarrow> 0 \<le> py_int ((a - ?H) / 3000)"
    and n3: "?E \<le> a \<Longrightarrow> 0 \<le> py_int ((a - ?E) / 50000)" for a
    by (simp_all add: py_int_excess_nonneg)
  note h = py_int_one_and_half_ge [OF n2]
  note hm = py_int_one_and_half_mono [OF m2]
  show ?thesis
    unfolding theft_amount_base_def Let_def option.case py_int_of_int
    using assms m1 m3 n1 [of a1] n1 [of a2] n3 [of a1] n3 [of a2] h [of a1] h [of a2] hm
    by (auto simp: min_def)
qed

lemma theft_base_mono:
  "a1 \<le> a2 \<Longrightarrow> theft_base st (Some a1) tc \<le> theft_base st (Some a2) tc"
  using theft_amount_base_mono [of a1 a2 st]
  by (simp add: theft_base_def Let_def split: option.splits)

lemma fraud_base_mono:
  assumes "a1 \<le> a2"
  shows "fraud_base st (Some a1) \<le> fraud_base st (Some a2)"
proof -
  let ?L = "of_int (large st) :: real" and ?H = "of_int (huge st) :: real"
    and ?E = "of_int (especially_huge st) :: real"
  have m1: "py_int ((a1 - ?L) / 1000) \<le> py_int ((a2 - ?L) / 1000)"
    and m2: "py_int ((a1 - ?H) / 10000) \<le> py_int ((a2 - ?H) / 10000)"
    and m3: "py_int ((a1 - ?E) / 100000) \<le> py_int ((a2 - ?E) / 100000)"
    using assms by (simp_all add: py_int_excess_mono)
  have n1: "?L \<le> a \<Longrightarrow> 0 \<le> py_int ((a - ?L) / 1000)"
    and n2: "?H \<le> a \<Longrightarrow> 0 \<le> py_int ((a - ?H) / 10000)"
    and n3: "?E \<le> a \<Longrightarrow> 0 \<le> py_int ((a - ?E) / 100000)" for a
    by (simp_all add: py_int_excess_nonneg)
  note h = py_int_one_and_half_ge [OF n2]
  note hm = py_int_one_and_half_mono [OF m2]
  show ?thesis
    unfolding fraud_base_def Let_def option.case py_int_of_int
    using assms m1 m3 n1 [of a1] n1 [of a2] n3 [of a1] n3 [of a2] h [of a1] h [of a2] hm
    by (auto simp: min_def)
qed

lemma calculate_base_sentence_cal1124_mono:
  assumes "a1 \<le> a2" "region \<noteq> s_cities_to_provinces"
    "ct = s_theft_crime \<or> ct = s_fraud_crime"
  shows "\<exists>m1 m2. calculate_base_sentence_cal1124 ct (Some a1) il region tc = Inr m1 \<and>
     calculate_base_sentence_cal1124 ct (Some a2) il region tc = Inr m2 \<and> m1 \<le> m2"
proof -
  obtain th fr where sel: "select_standards region = Inr (Standards th fr)"
    using select_standards_Standards [OF assms(2)] by blast
  show ?thesis
    using assms(3) theft_base_mono [OF assms(1), of th tc] fraud_base_mono [OF assms(1), of fr]
    by (auto simp: calculate_base_sentence_cal1124_def sel subscript_Standards pick_standard_def)
qed

text \<open>
  The fixed brackets of \<open>1111/cal.py\<close> are non-decreasing over the amounts other than
  zero.
\<close>

lemma calculate_base_sentence_cal1111_mono:
  "a1 \<le> a2 \<Longrightarrow> a1 \<noteq> 0 \<Longrightarrow> a2 \<noteq> 0 \<Longrightarrow>
   calculate_base_sentence_cal1111 ct (Some a1) il \<le> calculate_base_sentence_cal1111 ct (Some a2) il"
  by (simp add: calculate_base_sentence_cal1111_def amount_and_below_def)

section \<open>The regional standard of 1111\<close>

lemma get_regional_standard_well_formed:
  assumes "get_regional_standard region ct = Inr st"
  shows "positive_ordered st"
proof -
  have wf: "positive_ordered (pick_standard key th fr)"
    if "(k, Standards th fr) \<in> set REGIONAL_STANDARDS_sc1111" for k th fr key
    using well_formed_sc1111 that
    by (cases key) (auto simp: list_all_iff well_formed_entry_def pick_standard_def)
  have sub: "positive_ordered st"
    if "(k, e) \<in> set REGIONAL_STANDARDS_sc1111" "subscript_crime_key e key = Inr st" for k e key
    using that wf by (cases e) (auto simp: subscript_Standards subscript_Cities)
  have dflt: "positive_ordered st"
    if "subscript_default REGIONAL_STANDARDS_sc1111 key = Inr st" for key
    using that
    by (cases key) (auto simp: subscript_default_sc1111 pick_standard_def positive_ordered_def)
  show ?thesis
    using assms unfolding get_regional_standard_def first_contained_key_def Let_def
    by (auto split: option.splits prod.splits dest!: map_of_SomeD find_SomeD intro: sub dflt)
qed

lemma determine_amount_level_small:
  assumes "positive_ordered st" "a < of_int (large st)"
  shows "determine_amount_level a st = s_level_small"
proof -
  have "(of_int (large st) :: real) < of_int (huge st)"
    "(of_int (huge st) :: real) < of_int (especially_huge st)"
    using assms(1) by (simp_all add: positive_ordered_def)
  with assms(2) have "a < of_int (huge st)" "a < of_int (especially_huge st)"
    by linarith+
  with assms show ?thesis
    by (simp add: determine_amount_level_def)
qed


section \<open>Claims about the factor adjustment engine\<close>







section \<open>Claims about the range converter\<close>

text \<open>
  Claim C5, as stated, for every caller-supplied width: fails for an odd width, because
  the half-width is the integer \<open>width // 2\<close>.  At \<open>center = 10\<close>, \<open>width = 3\<close> the
  converter returns \<open>[9, 11]\<close>, where the claim's formula
  \<open>[max(1, round(10 - 1.5)), max(1, round(10 + 1.5))]\<close> is \<open>[8, 12]\<close>.
\<close>

theorem C5_odd_width_counterexample:
  "months_to_range_sc1111 10 (Some 3) = [9, 11] \<and>
   [max 1 (py_round (10 - 3 / 2)), max 1 (py_round (10 + 3 / 2))] = [8, 12]"
  by (simp add: months_to_range_sc1111_def py_round_def Let_def)

text \<open>
  Claim C5, amended: for every center value \<open>C\<close> and every caller-supplied integer
  width \<open>W\<close>, \<open>months_to_range\<close> of 1111 returns exactly
  \<open>[max(1, round(C - W/2)), max(1, round(C + W/2))]\<close> when \<open>W\<close> is even, and the same
  with \<open>(W - 1)/2\<close> in place of \<open>W/2\<close> when \<open>W\<close> is odd; each bound is floored at 1
  month on its own, so neither is ever below 1; and \<open>months_to_range(48, width=4)\<close>
  returns \<open>[46, 50]\<close>.
\<close>

theorem C5_months_to_range:
  "(even W \<longrightarrow>
      months_to_range_sc1111 C (Some W) =
        [max 1 (py_round (C - of_int W / 2)), max 1 (py_round (C + of_int W / 2))]) \<and>
   (odd W \<longrightarrow>
      months_to_range_sc1111 C (Some W) =
        [max 1 (py_round (C - (of_int W - 1) / 2)), max 1 (py_round (C + (of_int W - 1) / 2))]) \<and>
   (\<forall>b \<in> set (months_to_range_sc1111 C (Some W)). 1 \<le> b) \<and>
   months_to_range_sc1111 48 (Some 4) = [46, 50]"
proof -
  have evenW: "months_to_range_sc1111 C (Some W) =
      [max 1 (py_round (C - of_int W / 2)), max 1 (py_round (C + of_int W / 2))]" if "even W"
  proof -
    from that obtain k where k: "W = 2 * k"
      by (elim evenE)
    show ?thesis
      unfolding k by (simp add: months_to_range_sc1111_def Let_def)
  qed
  have oddW: "months_to_range_sc1111 C (Some W) =
      [max 1 (py_round (C - (of_int W - 1) / 2)), max 1 (py_round (C + (of_int W - 1) / 2))]"
    if "odd W"
  proof -
    from that obtain k where k: "W = 2 * k + 1"
      by (elim oddE)
    show ?thesis
      unfolding k by (simp add: months_to_range_sc1111_def Let_def)
  qed
  have bounds: "\<forall>b \<in> set (months_to_range_sc1111 C (Some W)). 1 \<le> b"
    by (simp add: months_to_range_sc1111_def Let_def)
  have scenario: "months_to_range_sc1111 48 (Some 4) = [46, 50]"
    by (simp add: months_to_range_sc1111_def py_round_def Let_def)
  show ?thesis
    using evenW oddW bounds scenario by blast
qed

theorem C5_months_to_range_witness:
  "even (4::int) \<and> odd (3::int) \<and>
   months_to_range_sc1111 2 (Some 4) = [1, 4] \<and>
   [max 1 (py_round (2 - of_int 4 / 2)), max 1 (py_round (2 + of_int 4 / 2))] = [1, 4] \<and>
   months_to_range_sc1111 10 (Some 3) = [9, 11] \<and>
   [max 1 (py_round (10 - (of_int 3 - 1) / 2)), max 1 (py_round (10 + (of_int 3 - 1) / 2))]
     = [9, 11]"
  using C5_months_to_range [of 4 2] C5_months_to_range [of 3 10]
  by (simp add: py_round_def Let_def)

text \<open>
  The converter of \<open>1124/cal.py\<close> does not read the width it is given: it derives
  the width from the center, so \<open>months_to_range(48, width=4)\<close> is \<open>[44, 52]\<close>
  there.  The amended claim C5 says nothing about this converter.
\<close>

lemma months_to_range_cal1124_ignores_width:
  "months_to_range_cal1124 C width = months_to_range_cal1124 C width'"
  by (simp add: months_to_range_cal1124_def)

lemma months_to_range_cal1124_scenario:
  "months_to_range_cal1124 48 (Some 4) = [44, 52]"
  by (simp add: months_to_range_cal1124_def py_round_def Let_def)

section \<open>Claims about the legal range validator\<close>

text \<open>
  Claim C6, as stated, for all integer arguments: fails on an inverted range.  At
  \<open>months = 5\<close>, \<open>min_legal = 4\<close>, \<open>max_legal = 2\<close> the first test \<open>5 < 4\<close> fails, the
  second \<open>5 > 2\<close> holds and the validator returns the ceiling 2, where the clamp formula
  \<open>max(min_legal, min(months, max_legal))\<close> gives 4; a second application then returns 4,
  so the validator is not idempotent there either.
\<close>

theorem C6_inverted_range_counterexample:
  "validate_legal_range 5 4 2 \<noteq> max 4 (min 5 2) \<and>
   validate_legal_range (validate_legal_range 5 4 2) 4 2 \<noteq> validate_legal_range 5 4 2"
  by (simp add: validate_legal_range_def)

text \<open>
  Claim C6, amended: for all integer arguments with \<open>min_legal \<le> max_legal\<close> the
  validator is total (it is a function to \<open>int\<close>, no exception), equals the pure clamp
  \<open>max(min_legal, min(months, max_legal))\<close> and is idempotent; and
  \<open>validate_legal_range(45, 6, 36) = 36\<close>.
\<close>

theorem C6_validate_is_clamp:
  "(min_legal \<le> max_legal \<longrightarrow>
      validate_legal_range months min_legal max_legal = max min_legal (min months max_legal) \<and>
      validate_legal_range (validate_legal_range months min_legal max_legal) min_legal max_legal
        = validate_legal_range months min_legal max_legal) \<and>
   validate_legal_range 45 6 36 = 36"
  by (simp add: validate_legal_range_def)

theorem C6_validate_is_clamp_witness:
  "(6::int) \<le> 36 \<and>
   validate_legal_range 3 6 36 = max 6 (min 3 36) \<and>
   validate_legal_range (validate_legal_range 3 6 36) 6 36 = validate_legal_range 3 6 36 \<and>
   validate_legal_range 3 6 36 = 6"
  using C6_validate_is_clamp [of 6 36 3] by (simp add: validate_legal_range_def)

section \<open>Claims about the base sentence\<close>

text \<open>
  Claim C3 (the base sentence is non-decreasing in the amount) is violated by
  \<open>calculate_base_sentence\<close> of \<open>1111/cal.py\<close> at the amount zero: every bracket test
  is \<open>amount and amount < t\<close>, zero is falsy, so all three tests fail and the \<open>else\<close>
  branch returns the top bracket's 120 months, above the value at the amount 1.
\<close>

theorem C3_zero_amount_gets_top_bracket:
  "calculate_base_sentence_cal1111 s_theft_crime (Some 0) None = 120 \<and>
   calculate_base_sentence_cal1111 s_theft_crime (Some 1) None = 6 \<and>
   calculate_base_sentence_cal1111 s_fraud_crime (Some 0) None = 120 \<and>
   calculate_base_sentence_cal1111 s_fraud_crime (Some 1) None = 0"
  by (simp add: calculate_base_sentence_cal1111_def amount_and_below_def)

text \<open>
  Claim C4 (the ceiling of 180 months still holds with an occurrence count) is violated
  by \<open>calculate_base_sentence\<close> of \<open>1124/cal.py\<close>: the count's months are added after
  the \<open>min(..., 180)\<close>.  For theft of 3300000 in the default jurisdiction the amount
  part is 180 months, and with five occurrences the result is 181.
\<close>

theorem C4_count_added_after_the_cap:
  "calculate_base_sentence_cal1124 s_theft_crime (Some 3300000) None s_default None = Inr 180 \<and>
   calculate_base_sentence_cal1124 s_theft_crime (Some 3300000) None s_default (Some 5) = Inr 181"
  by (simp add: calculate_base_sentence_cal1124_def select_standards_def default_cal1124
      subscript_Standards pick_standard_def theft_base_def theft_amount_base_def py_int_def Let_def)

text \<open>
  Claim C8, as stated, for a missing amount: fails on \<open>1124/cal.py\<close>, whose branch
  \<open>if amount is None\<close> returns the default of 12 months, not the 6 months that an
  amount under the "large" threshold (here 500, under 1000) receives.
\<close>

theorem C8_missing_amount_counterexample:
  "calculate_base_sentence_cal1124 s_theft_crime None None s_default None = Inr 12 \<and>
   calculate_base_sentence_cal1124 s_theft_crime (Some 500) None s_default None = Inr 6 \<and>
   calculate_base_sentence_cal1124 s_fraud_crime None None s_default None = Inr 12 \<and>
   calculate_base_sentence_cal1124 s_fraud_crime (Some 500) None s_default None = Inr 6"
  by (simp add: calculate_base_sentence_cal1124_def select_standards_def default_cal1124
      subscript_Standards pick_standard_def theft_base_def theft_amount_base_def fraud_base_def)

text \<open>
  Claim C8, amended.  In \<open>1124/cal.py\<close>, for theft and fraud and every region other than
  the literal key \<open>"cities_to_provinces"\<close>, the lookup yields standards with positive
  "large" thresholds, and
  \<^item> a zero or negative amount is below the lowest bracket: it returns what every
    amount under the "large" threshold returns, which is 6 months (for theft, before
    the months of an occurrence count);
  \<^item> a missing amount (\<open>None\<close>) does not raise and returns the separate default of 12
    months.

  In \<open>1111/cal.py\<close> a negative amount returns the value of the lowest bracket, as every
  amount between 0 and 3000 does: 6 months for theft, 0 for fraud.
\<close>

theorem C8_invalid_amounts:
  "(region \<noteq> s_cities_to_provinces \<longrightarrow>
     (\<exists>th fr. select_standards region = Inr (Standards th fr) \<and> 0 < large th \<and> 0 < large fr \<and>
        (a \<le> 0 \<longrightarrow>
           calculate_base_sentence_cal1124 s_theft_crime (Some a) il region None = Inr 6 \<and>
           calculate_base_sentence_cal1124 s_fraud_crime (Some a) il region tc = Inr 6) \<and>
        (a \<le> 0 \<and> a' < of_int (large th) \<longrightarrow>
           calculate_base_sentence_cal1124 s_theft_crime (Some a) il region tc =
             calculate_base_sentence_cal1124 s_theft_crime (Some a') il region tc) \<and>
        (a' < of_int (large fr) \<longrightarrow>
           calculate_base_sentence_cal1124 s_fraud_crime (Some a') il region tc = Inr 6) \<and>
        calculate_base_sentence_cal1124 s_theft_crime None il region None = Inr 12 \<and>
        calculate_base_sentence_cal1124 s_fraud_crime None il region tc = Inr 12)) \<and>
   (a < 0 \<and> 0 < a' \<and> a' < 3000 \<longrightarrow>
      calculate_base_sentence_cal1111 s_theft_crime (Some a) il = 6 \<and>
      calculate_base_sentence_cal1111 s_theft_crime (Some a') il = 6 \<and>
      calculate_base_sentence_cal1111 s_fraud_crime (Some a) il = 0 \<and>
      calculate_base_sentence_cal1111 s_fraud_crime (Some a') il = 0)"
proof (intro conjI impI)
  assume "region \<noteq> s_cities_to_provinces"
  then obtain th fr where sel: "select_standards region = Inr (Standards th fr)"
      and pos: "positive_ordered th" "positive_ordered fr"
    using select_standards_Standards by blast
  have lt: "0 < large th" and lf: "0 < large fr"
    using pos by (simp_all add: positive_ordered_def)
  have t: "calculate_base_sentence_cal1124 s_theft_crime amount il region tc'
      = Inr (theft_base th amount tc')" for amount tc'
    by (simp add: calculate_base_sentence_cal1124_def sel subscript_Standards pick_standard_def)
  have f: "calculate_base_sentence_cal1124 s_fraud_crime amount il region tc
      = Inr (fraud_base fr amount)" for amount
    by (simp add: calculate_base_sentence_cal1124_def sel subscript_Standards pick_standard_def)
  have below_t: "a < of_int (large th)" if "a \<le> 0"
    using that lt by (smt (verit) of_int_pos)
  have below_f: "a < of_int (large fr)" if "a \<le> 0"
    using that lf by (smt (verit) of_int_pos)
  show "\<exists>th fr. select_standards region = Inr (Standards th fr) \<and> 0 < large th \<and> 0 < large fr \<and>
        (a \<le> 0 \<longrightarrow>
           calculate_base_sentence_cal1124 s_theft_crime (Some a) il region None = Inr 6 \<and>
           calculate_base_sentence_cal1124 s_fraud_crime (Some a) il region tc = Inr 6) \<and>
        (a \<le> 0 \<and> a' < of_int (large th) \<longrightarrow>
           calculate_base_sentence_cal1124 s_theft_crime (Some a) il region tc =
             calculate_base_sentence_cal1124 s_theft_crime (Some a') il region tc) \<and>
        (a' < of_int (large fr) \<longrightarrow>
           calculate_base_sentence_cal1124 s_fraud_crime (Some a') il region tc = Inr 6) \<and>
        calculate_base_sentence_cal1124 s_theft_crime None il region None = Inr 12 \<and>
        calculate_base_sentence_cal1124 s_fraud_crime None il region tc = Inr 12"
    using sel lt lf below_t below_f
    by (intro exI [of _ th] exI [of _ fr])
       (simp add: t f theft_base_def theft_amount_base_below_large fraud_base_below_large
          theft_amount_base_def fraud_base_def)
next
  assume "a < 0 \<and> 0 < a' \<and> a' < 3000"
  then show "calculate_base_sentence_cal1111 s_theft_crime (Some a) il = 6"
    "calculate_base_sentence_cal1111 s_theft_crime (Some a') il = 6"
    "calculate_base_sentence_cal1111 s_fraud_crime (Some a) il = 0"
    "calculate_base_sentence_cal1111 s_fraud_crime (Some a') il = 0"
    by (simp_all add: calculate_base_sentence_cal1111_def amount_and_below_def)
qed

theorem C8_invalid_amounts_witness:
  "s_default \<noteq> s_cities_to_provinces \<and> (- 5 :: real) \<le> 0 \<and> (500 :: real) < 1000 \<and>
   calculate_base_sentence_cal1124 s_theft_crime (Some (- 5)) None s_default None = Inr 6 \<and>
   calculate_base_sentence_cal1124 s_fraud_crime (Some (- 5)) None s_default (Some 7) = Inr 6 \<and>
   calculate_base_sentence_cal1124 s_theft_crime (Some (- 5)) None s_default (Some 7) = Inr 8 \<and>
   calculate_base_sentence_cal1124 s_theft_crime (Some 500) None s_default (Some 7) = Inr 8 \<and>
   calculate_base_sentence_cal1124 s_fraud_crime (Some 500) None s_default (Some 7) = Inr 6 \<and>
   calculate_base_sentence_cal1124 s_theft_crime None None s_default None = Inr 12 \<and>
   calculate_base_sentence_cal1124 s_fraud_crime None None s_default (Some 7) = Inr 12 \<and>
   calculate_base_sentence_cal1111 s_theft_crime (Some (- 5)) None = 6 \<and>
   calculate_base_sentence_cal1111 s_fraud_crime (Some (- 5)) None = 0"
proof -
  have sel: "select_standards s_default =
      Inr (Standards \<lparr>large = 1000, huge = 30000, especially_huge = 300000\<rparr>
                     \<lparr>large = 3000, huge = 30000, especially_huge = 500000\<rparr>)"
    by (simp add: select_standards_def default_cal1124)
  have v: "calculate_base_sentence_cal1124 s_theft_crime (Some 500) None s_default (Some 7) = Inr 8"
    by (simp add: calculate_base_sentence_cal1124_def sel subscript_Standards pick_standard_def
        theft_base_def theft_amount_base_def py_int_def)
  show ?thesis
    using C8_invalid_amounts [of s_default "- 5" None "Some 7" 500] sel v by auto
qed

text \<open>
  Claim C10: in the jurisdiction-aware variant of 1111, for a crime type that contains
  the word theft or the word fraud, when no amount is supplied or the supplied amount
  is below the "large" threshold of the regional standard, a supplied injury level
  decides the base: 18 months for minor injury and 60 months for serious injury, in
  place of the default of 12 months (returned when no injury level is supplied).
\<close>

theorem C10_injury_level_overrides_default:
  "(sublist s_theft ct \<or> sublist s_fraud ct) \<and>
   (amount = None \<or>
    (\<exists>a st. amount = Some a \<and> get_regional_standard region ct = Inr st \<and>
       a < of_int (large st)))
   \<longrightarrow>
     calculate_base_sentence_sc1111 ct amount (Some s_minor_injury) region = Inr 18 \<and>
     calculate_base_sentence_sc1111 ct amount (Some s_serious_injury) region = Inr 60 \<and>
     calculate_base_sentence_sc1111 ct amount None region = Inr 12"
proof (intro impI, elim conjE)
  assume ct: "sublist s_theft ct \<or> sublist s_fraud ct"
  assume "amount = None \<or>
    (\<exists>a st. amount = Some a \<and> get_regional_standard region ct = Inr st \<and>
       a < of_int (large st))"
  then consider (none) "amount = None"
    | (small) a st where "amount = Some a" "get_regional_standard region ct = Inr st"
        "a < of_int (large st)"
    by blast
  then show "calculate_base_sentence_sc1111 ct amount (Some s_minor_injury) region = Inr 18 \<and>
     calculate_base_sentence_sc1111 ct amount (Some s_serious_injury) region = Inr 60 \<and>
     calculate_base_sentence_sc1111 ct amount None region = Inr 12"
  proof cases
    case none
    with ct show ?thesis
      by (auto simp: calculate_base_sentence_sc1111_def amount_bracket_months_def)
  next
    case small
    then have "determine_amount_level a st = s_level_small"
      by (intro determine_amount_level_small get_regional_standard_well_formed)
    with small ct show ?thesis
      by (auto simp: calculate_base_sentence_sc1111_def amount_bracket_months_def)
  qed
qed

theorem C10_injury_level_overrides_default_witness:
  "sublist s_theft s_theft_crime \<and>
   get_regional_standard s_default s_theft_crime =
     Inr \<lparr>large = 1000, huge = 30000, especially_huge = 300000\<rparr> \<and>
   (500 :: real) < 1000 \<and>
   calculate_base_sentence_sc1111 s_theft_crime (Some 500) (Some s_minor_injury) s_default = Inr 18 \<and>
   calculate_base_sentence_sc1111 s_theft_crime (Some 500) (Some s_serious_injury) s_default = Inr 60 \<and>
   sublist s_fraud s_fraud_crime \<and>
   calculate_base_sentence_sc1111 s_fraud_crime None (Some s_serious_injury) s_default = Inr 60"
proof -
  have t: "sublist s_theft s_theft_crime" and f: "sublist s_fraud s_fraud_crime"
    by (simp_all add: sublist_code(3))
  have st: "get_regional_standard s_default s_theft_crime =
      Inr \<lparr>large = 1000, huge = 30000, especially_huge = 300000\<rparr>"
    by (simp add: get_regional_standard_def default_sc1111 crime_key_of_def t
        subscript_Standards pick_standard_def)
  show ?thesis
    using C10_injury_level_overrides_default [of s_theft_crime "Some 500" s_default]
      C10_injury_level_overrides_default [of s_fraud_crime None s_default] t f st
    by simp
qed

section \<open>Claims about the jurisdiction lookup\<close>




text \<open>
  The key \<open>"cities_to_provinces"\<close> is itself a key of the table, so as a region it is
  an exact match whose entry is the city table: the subscript by the crime key then
  raises \<open>KeyError\<close>, in 1111 and in the theft and fraud branches of 1124.  The amended
  claim C7 says nothing about this region.
\<close>

lemma cities_key_raises:
  "get_regional_standard s_cities_to_provinces s_theft_crime = Inl KeyError \<and>
   calculate_base_sentence_sc1111 s_theft_crime (Some 5000) None s_cities_to_provinces = Inl KeyError \<and>
   calculate_base_sentence_cal1124 s_theft_crime (Some 5000) None s_cities_to_provinces None = Inl KeyError"
  by (simp add: get_regional_standard_def calculate_base_sentence_sc1111_def
      calculate_base_sentence_cal1124_def select_standards_def
      REGIONAL_STANDARDS_sc1111_def REGIONAL_STANDARDS_cal1124_def subscript_Cities sublist_code(3))

section \<open>Claims about the factor matcher\<close>

lemma match_layer1_loop_first:
  assumes "i < length table" "sublist (fst (table ! i)) d"
    "\<forall>j < i. \<not> sublist (fst (table ! j)) d"
  shows "match_layer1_loop table d =
     Some \<lparr>m1_name = l1_name (snd (table ! i)), m1_ratio = l1_ratio (snd (table ! i)),
            m1_match_reason = Matched (fst (table ! i))\<rparr>"
  using assms
proof (induction table arbitrary: i)
  case Nil
  then show ?case by simp
next
  case (Cons kv table)
  obtain key factor where kv: "kv = (key, factor)"
    by (cases kv)
  show ?case
  proof (cases i)
    case 0
    with Cons.prems kv show ?thesis by simp
  next
    case (Suc n)
    with Cons.prems have "\<not> sublist (fst ((kv # table) ! 0)) d"
      by blast
    moreover have "match_layer1_loop table d =
      Some \<lparr>m1_name = l1_name (snd (table ! n)), m1_ratio = l1_ratio (snd (table ! n)),
            m1_match_reason = Matched (fst (table ! n))\<rparr>"
      using Cons.prems Suc by (intro Cons.IH) auto
    ultimately show ?thesis
      using kv Suc by simp
  qed
qed

lemma match_layer1_loop_none:
  "\<forall>key \<in> set (map fst table). \<not> sublist key d \<Longrightarrow> match_layer1_loop table d = None"
  by (induction table) auto

lemma match_layer2_loop_first:
  assumes "i < length table" "sublist (fst (table ! i)) d"
    "\<forall>j < i. \<not> sublist (fst (table ! j)) d"
  shows "match_layer2_loop table d =
     Some \<lparr>m2_name = l2_name (snd (table ! i)),
            m2_adjustment_pct = l2_adjustment_pct (snd (table ! i)),
            m2_match_reason = Matched (fst (table ! i))\<rparr>"
  using assms
proof (induction table arbitrary: i)
  case Nil
  then show ?case by simp
next
  case (Cons kv table)
  obtain key factor where kv: "kv = (key, factor)"
    by (cases kv)
  show ?case
  proof (cases i)
    case 0
    with Cons.prems kv show ?thesis by simp
  next
    case (Suc n)
    with Cons.prems have "\<not> sublist (fst ((kv # table) ! 0)) d"
      by blast
    moreover have "match_layer2_loop table d =
      Some \<lparr>m2_name = l2_name (snd (table ! n)),
            m2_adjustment_pct = l2_adjustment_pct (snd (table ! n)),
            m2_match_reason = Matched (fst (table ! n))\<rparr>"
      using Cons.prems Suc by (intro Cons.IH) auto
    ultimately show ?thesis
      using kv Suc by simp
  qed
qed

lemma match_layer2_loop_none:
  "\<forall>key \<in> set (map fst table). \<not> sublist key d \<Longrightarrow> match_layer2_loop table d = None"
  by (induction table) auto

text \<open>
  Claim C9: for every description, \<open>match_layer1_factor\<close> and \<open>match_layer2_factor\<close>
  return the entry of the first key, in the table's stored order, that is contained in
  the description (its name, its coefficient and the reason "matched" with the key); if
  no key is contained they return the neutral default (ratio 1.0, adjustment 0) with
  the reason "no match".  Both are total functions: they never raise.
\<close>

theorem C9_first_match_wins:
  "(\<forall>i < length LAYER1_FACTORS.
      sublist (fst (LAYER1_FACTORS ! i)) d \<and>
      (\<forall>j < i. \<not> sublist (fst (LAYER1_FACTORS ! j)) d) \<longrightarrow>
      match_layer1_factor d =
        \<lparr>m1_name = l1_name (snd (LAYER1_FACTORS ! i)),
         m1_ratio = l1_ratio (snd (LAYER1_FACTORS ! i)),
         m1_match_reason = Matched (fst (LAYER1_FACTORS ! i))\<rparr>) \<and>
   ((\<forall>key \<in> set (map fst LAYER1_FACTORS). \<not> sublist key d) \<longrightarrow>
      match_layer1_factor d =
        \<lparr>m1_name = s_general_factor, m1_ratio = 1, m1_match_reason = No_match\<rparr>) \<and>
   (\<forall>i < length LAYER2_FACTORS.
      sublist (fst (LAYER2_FACTORS ! i)) d \<and>
      (\<forall>j < i. \<not> sublist (fst (LAYER2_FACTORS ! j)) d) \<longrightarrow>
      match_layer2_factor d =
        \<lparr>m2_name = l2_name (snd (LAYER2_FACTORS ! i)),
         m2_adjustment_pct = l2_adjustment_pct (snd (LAYER2_FACTORS ! i)),
         m2_match_reason = Matched (fst (LAYER2_FACTORS ! i))\<rparr>) \<and>
   ((\<forall>key \<in> set (map fst LAYER2_FACTORS). \<not> sublist key d) \<longrightarrow>
      match_layer2_factor d =
        \<lparr>m2_name = s_general_factor, m2_adjustment_pct = 0, m2_match_reason = No_match\<rparr>)"
  by (simp add: match_layer1_factor_def match_layer2_factor_def match_layer1_loop_first
      match_layer2_loop_first match_layer1_loop_none match_layer2_loop_none)

theorem C9_first_match_wins_witness:
  "match_layer1_factor
     [0x672A, 0x6210, 0x5E74, 0x4EBA, 0xFF08, 0x31, 0x34, 0x2D, 0x31, 0x36, 0x5C81, 0xFF09,
      0xFF0C, 0x80C1, 0x4ECE, 0x72AF] =
     \<lparr>m1_name = [0x672A, 0x6210, 0x5E74, 0x4EBA, 0xFF08, 0x31, 0x34, 0x2D, 0x31, 0x36, 0x5C81, 0xFF09],
      m1_ratio = 50 / 100,
      m1_match_reason =
        Matched [0x672A, 0x6210, 0x5E74, 0x4EBA, 0xFF08, 0x31, 0x34, 0x2D, 0x31, 0x36, 0x5C81, 0xFF09]\<rparr> \<and>
   match_layer1_factor [0x41, 0x42] =
     \<lparr>m1_name = s_general_factor, m1_ratio = 1, m1_match_reason = No_match\<rparr> \<and>
   match_layer2_factor [0x5766, 0x767D] =
     \<lparr>m2_name = [0x5766, 0x767D], m2_adjustment_pct = - 15,
      m2_match_reason = Matched [0x5766, 0x767D]\<rparr> \<and>
   match_layer2_factor [0x41, 0x42] =
     \<lparr>m2_name = s_general_factor, m2_adjustment_pct = 0, m2_match_reason = No_match\<rparr>"
proof -
  let ?minor_and_coerced =
    "[0x672A, 0x6210, 0x5E74, 0x4EBA, 0xFF08, 0x31, 0x34, 0x2D, 0x31, 0x36, 0x5C81, 0xFF09,
      0xFF0C, 0x80C1, 0x4ECE, 0x72AF] :: pystr"
  let ?confession = "[0x5766, 0x767D] :: pystr"
  let ?unknown = "[0x41, 0x42] :: pystr"
  have a: "match_layer1_factor ?minor_and_coerced =
     \<lparr>m1_name = [0x672A, 0x6210, 0x5E74, 0x4EBA, 0xFF08, 0x31, 0x34, 0x2D, 0x31, 0x36, 0x5C81, 0xFF09],
      m1_ratio = 50 / 100,
      m1_match_reason =
        Matched [0x672A, 0x6210, 0x5E74, 0x4EBA, 0xFF08, 0x31, 0x34, 0x2D, 0x31, 0x36, 0x5C81, 0xFF09]\<rparr>"
    using C9_first_match_wins [of ?minor_and_coerced, THEN conjunct1, rule_format, of 1]
    by (simp add: LAYER1_FACTORS_def sublist_code(3))
  have b: "match_layer1_factor ?unknown =
     \<lparr>m1_name = s_general_factor, m1_ratio = 1, m1_match_reason = No_match\<rparr>"
    using C9_first_match_wins [of ?unknown, THEN conjunct2, THEN conjunct1]
    by (simp add: LAYER1_FACTORS_def sublist_code(3))
  have c: "match_layer2_factor ?confession =
     \<lparr>m2_name = ?confession, m2_adjustment_pct = - 15, m2_match_reason = Matched ?confession\<rparr>"
    using C9_first_match_wins [of ?confession, THEN conjunct2, THEN conjunct2, THEN conjunct1,
        rule_format, of 3]
    by (simp add: LAYER2_FACTORS_def sublist_code(3) less_Suc_eq numeral_3_eq_3)
  have d: "match_layer2_factor ?unknown =
     \<lparr>m2_name = s_general_factor, m2_adjustment_pct = 0, m2_match_reason = No_match\<rparr>"
    using C9_first_match_wins [of ?unknown, THEN conjunct2, THEN conjunct2, THEN conjunct2]
    by (simp add: LAYER2_FACTORS_def sublist_code(3))
  show ?thesis
    using a b c d by simp
qed

end
